theory Spec2Isabelle
  imports
    Main
    "HOL-Library.AList"
    "HOL-Library.Char_ord"
    "HOL-Library.List_Lexorder"
    "HOL-Library.Sublist"
begin

section \<open>Python values used by the task orchestrator\<close>

text \<open>
  The orchestrator of \<^verbatim>\<open>web/services.py\<close> (class \<^verbatim>\<open>AnalysisService\<close>) keeps one Python
  dict per task in the dict \<^verbatim>\<open>self._tasks\<close>. Strings are modelled as \<^typ>\<open>string\<close>
  holding the UTF-8 bytes of the Python text; the order on strings is the lexicographic
  order on bytes, which on UTF-8 agrees with Python's order on code points.
  A Python dict is an association list in insertion order: \<^const>\<open>map_of\<close> is the lookup
  and \<^const>\<open>AList.update\<close> the assignment \<^verbatim>\<open>d[k] = v\<close> (an existing key keeps its
  position, a new key goes to the end).
\<close>

datatype pyval = PNone | PStr string | PInt int | PBool bool

type_synonym pydict = "(string \<times> pyval) list"

text \<open>\<^verbatim>\<open>xs[:n]\<close> for a Python int \<open>n\<close>: a negative \<open>n\<close> counts from the end.\<close>

definition slice_upto :: "int \<Rightarrow> 'a list \<Rightarrow> 'a list" where
  "slice_upto n xs =
     (if 0 \<le> n then take (nat n) xs else take (length xs - nat (- n)) xs)"

text \<open>\<^verbatim>\<open>xs[-n:]\<close> for \<open>n \<ge> 0\<close>; \<^verbatim>\<open>xs[-0:]\<close> is the whole list.\<close>

definition slice_last :: "nat \<Rightarrow> 'a list \<Rightarrow> 'a list" where
  "slice_last n xs = (if n = 0 then xs else drop (length xs - n) xs)"

text \<open>
  \<^verbatim>\<open>xs.sort(key=f, reverse=True)\<close>: CPython reverses the list, sorts it stably in
  ascending order and reverses it again, so equal keys keep their original order.
\<close>

definition sort_reverse :: "('a \<Rightarrow> 'k::linorder) \<Rightarrow> 'a list \<Rightarrow> 'a list" where
  "sort_reverse f xs = rev (sort_key f (rev xs))"

section \<open>String literals of the source\<close>

text \<open>
  The messages of the source are Chinese text; each constant below holds the UTF-8 bytes
  of one literal (or of one fixed part of an f-string), with an English gloss.
\<close>

subsection \<open>Literals of \<^verbatim>\<open>services.py\<close>\<close>

text \<open>Task started: (followed by the code).\<close>

definition msg_task_start :: string where
  "msg_task_start = [CHR 0xE4, CHR 0xBB, CHR 0xBB, CHR 0xE5, CHR 0x8A, CHR 0xA1, CHR 0xE5,
     CHR 0xBC, CHR 0x80, CHR 0xE5, CHR 0xA7, CHR 0x8B, CHR 0xEF, CHR 0xBC, CHR 0x9A]"

text \<open>Initialising the analysis pipeline.\<close>

definition msg_init_pipeline :: string where
  "msg_init_pipeline = [CHR 0xE5, CHR 0x88, CHR 0x9D, CHR 0xE5, CHR 0xA7, CHR 0x8B,
     CHR 0xE5, CHR 0x8C, CHR 0x96, CHR 0xE5, CHR 0x88, CHR 0x86, CHR 0xE6, CHR 0x9E,
     CHR 0x90, CHR 0xE7, CHR 0xAE, CHR 0xA1, CHR 0xE9, CHR 0x81, CHR 0x93] @ ''...''"

text \<open>Step 1/3, fetching and saving market data.\<close>

definition msg_step1 :: string where
  "msg_step1 = ''Step 1/3 '' @ [CHR 0xE8, CHR 0x8E, CHR 0xB7, CHR 0xE5, CHR 0x8F, CHR 0x96,
     CHR 0xE5, CHR 0xB9, CHR 0xB6, CHR 0xE4, CHR 0xBF, CHR 0x9D, CHR 0xE5, CHR 0xAD,
     CHR 0x98, CHR 0xE8, CHR 0xA1, CHR 0x8C, CHR 0xE6, CHR 0x83, CHR 0x85, CHR 0xE6,
     CHR 0x95, CHR 0xB0, CHR 0xE6, CHR 0x8D, CHR 0xAE] @ ''...''"

text \<open>Market data ready.\<close>

definition msg_data_ready :: string where
  "msg_data_ready = [CHR 0xE8, CHR 0xA1, CHR 0x8C, CHR 0xE6, CHR 0x83, CHR 0x85, CHR 0xE6,
     CHR 0x95, CHR 0xB0, CHR 0xE6, CHR 0x8D, CHR 0xAE, CHR 0xE5, CHR 0xB7, CHR 0xB2,
     CHR 0xE5, CHR 0xB0, CHR 0xB1, CHR 0xE7, CHR 0xBB, CHR 0xAA]"

text \<open>Fetching market data failed: (followed by the error).\<close>

definition msg_fetch_failed_pre :: string where
  "msg_fetch_failed_pre = [CHR 0xE8, CHR 0xA1, CHR 0x8C, CHR 0xE6, CHR 0x83, CHR 0x85,
     CHR 0xE6, CHR 0x95, CHR 0xB0, CHR 0xE6, CHR 0x8D, CHR 0xAE, CHR 0xE8, CHR 0x8E,
     CHR 0xB7, CHR 0xE5, CHR 0x8F, CHR 0x96, CHR 0xE5, CHR 0xA4, CHR 0xB1, CHR 0xE8,
     CHR 0xB4, CHR 0xA5, CHR 0xEF, CHR 0xBC, CHR 0x9A]"

text \<open>(will try to go on with the data already stored).\<close>

definition msg_fetch_failed_post :: string where
  "msg_fetch_failed_post = [CHR 0xEF, CHR 0xBC, CHR 0x88, CHR 0xE5, CHR 0xB0, CHR 0x86,
     CHR 0xE5, CHR 0xB0, CHR 0x9D, CHR 0xE8, CHR 0xAF, CHR 0x95, CHR 0xE4, CHR 0xBD,
     CHR 0xBF, CHR 0xE7, CHR 0x94, CHR 0xA8, CHR 0xE5, CHR 0xB7, CHR 0xB2, CHR 0xE6,
     CHR 0x9C, CHR 0x89, CHR 0xE6, CHR 0x95, CHR 0xB0, CHR 0xE6, CHR 0x8D, CHR 0xAE,
     CHR 0xE7, CHR 0xBB, CHR 0xA7, CHR 0xE7, CHR 0xBB, CHR 0xAD, CHR 0xEF, CHR 0xBC,
     CHR 0x89]"

text \<open>Step 2/3, running the analysis.\<close>

definition msg_step2 :: string where
  "msg_step2 = ''Step 2/3 '' @ [CHR 0xE6, CHR 0x89, CHR 0xA7, CHR 0xE8, CHR 0xA1, CHR 0x8C,
     CHR 0xE8, CHR 0xB6, CHR 0x8B, CHR 0xE5, CHR 0x8A, CHR 0xBF] @ ''/'' @ [CHR 0xE6,
     CHR 0x83, CHR 0x85, CHR 0xE6, CHR 0x8A, CHR 0xA5] @ ''/AI '' @ [CHR 0xE7, CHR 0xBB,
     CHR 0xBC, CHR 0xE5, CHR 0x90, CHR 0x88, CHR 0xE5, CHR 0x88, CHR 0x86, CHR 0xE6,
     CHR 0x9E, CHR 0x90] @ ''...''"

text \<open>Step 3/3, rendering the report.\<close>

definition msg_step3 :: string where
  "msg_step3 = ''Step 3/3 '' @ [CHR 0xE7, CHR 0x94, CHR 0x9F, CHR 0xE6, CHR 0x88, CHR 0x90,
     CHR 0xE6, CHR 0x8A, CHR 0xA5, CHR 0xE5, CHR 0x91, CHR 0x8A, CHR 0xE5, CHR 0x86,
     CHR 0x85, CHR 0xE5, CHR 0xAE, CHR 0xB9] @ ''...''"

text \<open>Report rendered.\<close>

definition msg_report_ready :: string where
  "msg_report_ready = [CHR 0xE6, CHR 0x8A, CHR 0xA5, CHR 0xE5, CHR 0x91, CHR 0x8A,
     CHR 0xE5, CHR 0xB7, CHR 0xB2, CHR 0xE7, CHR 0x94, CHR 0x9F, CHR 0xE6, CHR 0x88,
     CHR 0x90]"

text \<open>Pushing the notification.\<close>

definition msg_notifying :: string where
  "msg_notifying = [CHR 0xE6, CHR 0x8E, CHR 0xA8, CHR 0xE9, CHR 0x80, CHR 0x81, CHR 0xE9,
     CHR 0x80, CHR 0x9A, CHR 0xE7, CHR 0x9F, CHR 0xA5, CHR 0xE4, CHR 0xB8,
     CHR 0xAD] @ ''...''"

text \<open>Push succeeded.\<close>

definition msg_notify_ok :: string where
  "msg_notify_ok = [CHR 0xE6, CHR 0x8E, CHR 0xA8, CHR 0xE9, CHR 0x80, CHR 0x81, CHR 0xE6,
     CHR 0x88, CHR 0x90, CHR 0xE5, CHR 0x8A, CHR 0x9F]"

text \<open>Push failed or no channel configured.\<close>

definition msg_notify_failed :: string where
  "msg_notify_failed = [CHR 0xE6, CHR 0x8E, CHR 0xA8, CHR 0xE9, CHR 0x80, CHR 0x81,
     CHR 0xE5, CHR 0xA4, CHR 0xB1, CHR 0xE8, CHR 0xB4, CHR 0xA5, CHR 0xE6, CHR 0x88,
     CHR 0x96, CHR 0xE6, CHR 0x9C, CHR 0xAA, CHR 0xE9, CHR 0x85, CHR 0x8D, CHR 0xE7,
     CHR 0xBD, CHR 0xAE, CHR 0xE6, CHR 0x9C, CHR 0x89, CHR 0xE6, CHR 0x95, CHR 0x88,
     CHR 0xE6, CHR 0xB8, CHR 0xA0, CHR 0xE9, CHR 0x81, CHR 0x93]"

text \<open>Push raised: (followed by the exception).\<close>

definition msg_notify_exception :: string where
  "msg_notify_exception = [CHR 0xE6, CHR 0x8E, CHR 0xA8, CHR 0xE9, CHR 0x80, CHR 0x81,
     CHR 0xE5, CHR 0xBC, CHR 0x82, CHR 0xE5, CHR 0xB8, CHR 0xB8, CHR 0xEF, CHR 0xBC,
     CHR 0x9A]"

text \<open>Task completed.\<close>

definition msg_task_done :: string where
  "msg_task_done = [CHR 0xE4, CHR 0xBB, CHR 0xBB, CHR 0xE5, CHR 0x8A, CHR 0xA1, CHR 0xE5,
     CHR 0xAE, CHR 0x8C, CHR 0xE6, CHR 0x88, CHR 0x90]"

text \<open>The analysis returned an empty result.\<close>

definition err_empty_analysis :: string where
  "err_empty_analysis = [CHR 0xE5, CHR 0x88, CHR 0x86, CHR 0xE6, CHR 0x9E, CHR 0x90,
     CHR 0xE8, CHR 0xBF, CHR 0x94, CHR 0xE5, CHR 0x9B, CHR 0x9E, CHR 0xE7, CHR 0xA9,
     CHR 0xBA, CHR 0xE7, CHR 0xBB, CHR 0x93, CHR 0xE6, CHR 0x9E, CHR 0x9C]"

text \<open>Analysis failed: empty result.\<close>

definition msg_empty_analysis :: string where
  "msg_empty_analysis = [CHR 0xE5, CHR 0x88, CHR 0x86, CHR 0xE6, CHR 0x9E, CHR 0x90,
     CHR 0xE5, CHR 0xA4, CHR 0xB1, CHR 0xE8, CHR 0xB4, CHR 0xA5, CHR 0xEF, CHR 0xBC,
     CHR 0x9A, CHR 0xE8, CHR 0xBF, CHR 0x94, CHR 0xE5, CHR 0x9B, CHR 0x9E, CHR 0xE7,
     CHR 0xA9, CHR 0xBA, CHR 0xE7, CHR 0xBB, CHR 0x93, CHR 0xE6, CHR 0x9E, CHR 0x9C]"

text \<open>Task raised: (followed by the exception).\<close>

definition msg_task_exception :: string where
  "msg_task_exception = [CHR 0xE4, CHR 0xBB, CHR 0xBB, CHR 0xE5, CHR 0x8A, CHR 0xA1,
     CHR 0xE5, CHR 0xBC, CHR 0x82, CHR 0xE5, CHR 0xB8, CHR 0xB8, CHR 0xEF, CHR 0xBC,
     CHR 0x9A]"

text \<open>Task started: market review.\<close>

definition msg_review_start :: string where
  "msg_review_start = [CHR 0xE4, CHR 0xBB, CHR 0xBB, CHR 0xE5, CHR 0x8A, CHR 0xA1,
     CHR 0xE5, CHR 0xBC, CHR 0x80, CHR 0xE5, CHR 0xA7, CHR 0x8B, CHR 0xEF, CHR 0xBC,
     CHR 0x9A, CHR 0xE5, CHR 0xA4, CHR 0xA7, CHR 0xE7, CHR 0x9B, CHR 0x98, CHR 0xE5,
     CHR 0xA4, CHR 0x8D, CHR 0xE7, CHR 0x9B, CHR 0x98]"

text \<open>Search service failed to initialise (going on):.\<close>

definition msg_search_init_failed :: string where
  "msg_search_init_failed = [CHR 0xE6, CHR 0x90, CHR 0x9C, CHR 0xE7, CHR 0xB4, CHR 0xA2,
     CHR 0xE6, CHR 0x9C, CHR 0x8D, CHR 0xE5, CHR 0x8A, CHR 0xA1, CHR 0xE5, CHR 0x88,
     CHR 0x9D, CHR 0xE5, CHR 0xA7, CHR 0x8B, CHR 0xE5, CHR 0x8C, CHR 0x96, CHR 0xE5,
     CHR 0xA4, CHR 0xB1, CHR 0xE8, CHR 0xB4, CHR 0xA5, CHR 0xEF, CHR 0xBC, CHR 0x88,
     CHR 0xE5, CHR 0xB0, CHR 0x86, CHR 0xE7, CHR 0xBB, CHR 0xA7, CHR 0xE7, CHR 0xBB,
     CHR 0xAD, CHR 0xEF, CHR 0xBC, CHR 0x89, CHR 0xEF, CHR 0xBC, CHR 0x9A]"

text \<open>AI analyzer failed to initialise (going on):.\<close>

definition msg_analyzer_init_failed :: string where
  "msg_analyzer_init_failed = ''AI '' @ [CHR 0xE5, CHR 0x88, CHR 0x86, CHR 0xE6, CHR 0x9E,
     CHR 0x90, CHR 0xE5, CHR 0x99, CHR 0xA8, CHR 0xE5, CHR 0x88, CHR 0x9D, CHR 0xE5,
     CHR 0xA7, CHR 0x8B, CHR 0xE5, CHR 0x8C, CHR 0x96, CHR 0xE5, CHR 0xA4, CHR 0xB1,
     CHR 0xE8, CHR 0xB4, CHR 0xA5, CHR 0xEF, CHR 0xBC, CHR 0x88, CHR 0xE5, CHR 0xB0,
     CHR 0x86, CHR 0xE7, CHR 0xBB, CHR 0xA7, CHR 0xE7, CHR 0xBB, CHR 0xAD, CHR 0xEF,
     CHR 0xBC, CHR 0x89, CHR 0xEF, CHR 0xBC, CHR 0x9A]"

text \<open>Running the market review.\<close>

definition msg_review_running :: string where
  "msg_review_running = [CHR 0xE6, CHR 0x89, CHR 0xA7, CHR 0xE8, CHR 0xA1, CHR 0x8C,
     CHR 0xE5, CHR 0xA4, CHR 0xA7, CHR 0xE7, CHR 0x9B, CHR 0x98, CHR 0xE5, CHR 0xA4,
     CHR 0x8D, CHR 0xE7, CHR 0x9B, CHR 0x98, CHR 0xE5, CHR 0x88, CHR 0x86, CHR 0xE6,
     CHR 0x9E, CHR 0x90, CHR 0xE4, CHR 0xB8, CHR 0xAD] @ ''...''"

text \<open>The market review returned an empty result.\<close>

definition err_empty_review :: string where
  "err_empty_review = [CHR 0xE5, CHR 0xA4, CHR 0xA7, CHR 0xE7, CHR 0x9B, CHR 0x98,
     CHR 0xE5, CHR 0xA4, CHR 0x8D, CHR 0xE7, CHR 0x9B, CHR 0x98, CHR 0xE8, CHR 0xBF,
     CHR 0x94, CHR 0xE5, CHR 0x9B, CHR 0x9E, CHR 0xE7, CHR 0xA9, CHR 0xBA, CHR 0xE7,
     CHR 0xBB, CHR 0x93, CHR 0xE6, CHR 0x9E, CHR 0x9C]"

text \<open>Market review failed: empty result.\<close>

definition msg_empty_review :: string where
  "msg_empty_review = [CHR 0xE5, CHR 0xA4, CHR 0xA7, CHR 0xE7, CHR 0x9B, CHR 0x98,
     CHR 0xE5, CHR 0xA4, CHR 0x8D, CHR 0xE7, CHR 0x9B, CHR 0x98, CHR 0xE5, CHR 0xA4,
     CHR 0xB1, CHR 0xE8, CHR 0xB4, CHR 0xA5, CHR 0xEF, CHR 0xBC, CHR 0x9A, CHR 0xE8,
     CHR 0xBF, CHR 0x94, CHR 0xE5, CHR 0x9B, CHR 0x9E, CHR 0xE7, CHR 0xA9, CHR 0xBA,
     CHR 0xE7, CHR 0xBB, CHR 0x93, CHR 0xE6, CHR 0x9E, CHR 0x9C]"

text \<open>Markdown heading of the review, two newlines.\<close>

definition review_heading :: string where
  "review_heading = ''# '' @ [CHR 0xF0, CHR 0x9F, CHR 0x8E, CHR 0xAF] @ '' '' @ [CHR 0xE5,
     CHR 0xA4, CHR 0xA7, CHR 0xE7, CHR 0x9B, CHR 0x98, CHR 0xE5, CHR 0xA4, CHR 0x8D,
     CHR 0xE7, CHR 0x9B, CHR 0x98, CHR 0x0A, CHR 0x0A]"

text \<open>Market review.\<close>

definition review_name :: string where
  "review_name = [CHR 0xE5, CHR 0xA4, CHR 0xA7, CHR 0xE7, CHR 0x9B, CHR 0x98, CHR 0xE5,
     CHR 0xA4, CHR 0x8D, CHR 0xE7, CHR 0x9B, CHR 0x98]"

text \<open>Task completed: market review.\<close>

definition msg_review_done :: string where
  "msg_review_done = [CHR 0xE4, CHR 0xBB, CHR 0xBB, CHR 0xE5, CHR 0x8A, CHR 0xA1, CHR 0xE5,
     CHR 0xAE, CHR 0x8C, CHR 0xE6, CHR 0x88, CHR 0x90, CHR 0xEF, CHR 0xBC, CHR 0x9A,
     CHR 0xE5, CHR 0xA4, CHR 0xA7, CHR 0xE7, CHR 0x9B, CHR 0x98, CHR 0xE5, CHR 0xA4,
     CHR 0x8D, CHR 0xE7, CHR 0x9B, CHR 0x98]"

text \<open>Submitted, the result will be shown.\<close>

definition msg_submitted_webui :: string where
  "msg_submitted_webui = [CHR 0xE5, CHR 0x88, CHR 0x86, CHR 0xE6, CHR 0x9E, CHR 0x90,
     CHR 0xE4, CHR 0xBB, CHR 0xBB, CHR 0xE5, CHR 0x8A, CHR 0xA1, CHR 0xE5, CHR 0xB7,
     CHR 0xB2, CHR 0xE6, CHR 0x8F, CHR 0x90, CHR 0xE4, CHR 0xBA, CHR 0xA4, CHR 0xEF,
     CHR 0xBC, CHR 0x8C, CHR 0xE5, CHR 0xB0, CHR 0x86, CHR 0xE5, CHR 0xBC, CHR 0x82,
     CHR 0xE6, CHR 0xAD, CHR 0xA5, CHR 0xE6, CHR 0x89, CHR 0xA7, CHR 0xE8, CHR 0xA1,
     CHR 0x8C, CHR 0xE5, CHR 0xB9, CHR 0xB6, CHR 0xE5, CHR 0xB1, CHR 0x95, CHR 0xE7,
     CHR 0xA4, CHR 0xBA, CHR 0xE7, CHR 0xBB, CHR 0x93, CHR 0xE6, CHR 0x9E, CHR 0x9C]"

text \<open>Submitted, a notification will be pushed.\<close>

definition msg_submitted_push :: string where
  "msg_submitted_push = [CHR 0xE5, CHR 0x88, CHR 0x86, CHR 0xE6, CHR 0x9E, CHR 0x90,
     CHR 0xE4, CHR 0xBB, CHR 0xBB, CHR 0xE5, CHR 0x8A, CHR 0xA1, CHR 0xE5, CHR 0xB7,
     CHR 0xB2, CHR 0xE6, CHR 0x8F, CHR 0x90, CHR 0xE4, CHR 0xBA, CHR 0xA4, CHR 0xEF,
     CHR 0xBC, CHR 0x8C, CHR 0xE5, CHR 0xB0, CHR 0x86, CHR 0xE5, CHR 0xBC, CHR 0x82,
     CHR 0xE6, CHR 0xAD, CHR 0xA5, CHR 0xE6, CHR 0x89, CHR 0xA7, CHR 0xE8, CHR 0xA1,
     CHR 0x8C, CHR 0xE5, CHR 0xB9, CHR 0xB6, CHR 0xE6, CHR 0x8E, CHR 0xA8, CHR 0xE9,
     CHR 0x80, CHR 0x81, CHR 0xE9, CHR 0x80, CHR 0x9A, CHR 0xE7, CHR 0x9F, CHR 0xA5]"

subsection \<open>Literals of \<^verbatim>\<open>market_review.py\<close>\<close>

text \<open>Heading of the pushed review, two newlines.\<close>

definition review_push_heading :: string where
  "review_push_heading = [CHR 0xF0, CHR 0x9F, CHR 0x8E, CHR 0xAF] @ '' '' @ [CHR 0xE5,
     CHR 0xA4, CHR 0xA7, CHR 0xE7, CHR 0x9B, CHR 0x98, CHR 0xE5, CHR 0xA4, CHR 0x8D,
     CHR 0xE7, CHR 0x9B, CHR 0x98, CHR 0x0A, CHR 0x0A]"

text \<open>Between the data snapshot and the review text.\<close>

definition snapshot_separator :: string where
  "snapshot_separator = [CHR 0x0A, CHR 0x0A] @ ''---'' @ [CHR 0x0A, CHR 0x0A]"

subsection \<open>Literals of \<^verbatim>\<open>handlers.py\<close>\<close>

text \<open>Required parameter code is missing.\<close>

definition err_missing_code :: string where
  "err_missing_code = [CHR 0xE7, CHR 0xBC, CHR 0xBA, CHR 0xE5, CHR 0xB0, CHR 0x91,
     CHR 0xE5, CHR 0xBF, CHR 0x85, CHR 0xE5, CHR 0xA1, CHR 0xAB, CHR 0xE5, CHR 0x8F,
     CHR 0x82, CHR 0xE6, CHR 0x95, CHR 0xB0] @ '': code ('' @ [CHR 0xE8, CHR 0x82,
     CHR 0xA1, CHR 0xE7, CHR 0xA5, CHR 0xA8, CHR 0xE4, CHR 0xBB, CHR 0xA3, CHR 0xE7,
     CHR 0xA0, CHR 0x81] @ '')''"

text \<open>Off-market fund codes are not supported: (followed by the code).\<close>

definition err_fund_code_pre :: string where
  "err_fund_code_pre = [CHR 0xE6, CHR 0x9A, CHR 0x82, CHR 0xE4, CHR 0xB8, CHR 0x8D,
     CHR 0xE6, CHR 0x94, CHR 0xAF, CHR 0xE6, CHR 0x8C, CHR 0x81, CHR 0xE5, CHR 0x9C,
     CHR 0xBA, CHR 0xE5, CHR 0xA4, CHR 0x96, CHR 0xE5, CHR 0x9F, CHR 0xBA, CHR 0xE9,
     CHR 0x87, CHR 0x91, CHR 0xE4, CHR 0xBB, CHR 0xA3, CHR 0xE7, CHR 0xA0,
     CHR 0x81] @ '': ''"

text \<open>(use an exchange-traded ETF code instead).\<close>

definition err_fund_code_post :: string where
  "err_fund_code_post = [CHR 0xEF, CHR 0xBC, CHR 0x88, CHR 0xE8, CHR 0xAF, CHR 0xB7,
     CHR 0xE4, CHR 0xBD, CHR 0xBF, CHR 0xE7, CHR 0x94, CHR 0xA8, CHR 0xE5, CHR 0x9C,
     CHR 0xBA, CHR 0xE5, CHR 0x86, CHR 0x85] @ '' ETF '' @ [CHR 0xE4, CHR 0xBB, CHR 0xA3,
     CHR 0xE7, CHR 0xA0, CHR 0x81, CHR 0xEF, CHR 0xBC, CHR 0x8C, CHR 0xE5, CHR 0xA6,
     CHR 0x82] @ '' 510300 / 159915'' @ [CHR 0xEF, CHR 0xBC, CHR 0x89]"

text \<open>Invalid stock code format: (followed by the code).\<close>

definition err_bad_code_pre :: string where
  "err_bad_code_pre = [CHR 0xE6, CHR 0x97, CHR 0xA0, CHR 0xE6, CHR 0x95, CHR 0x88,
     CHR 0xE7, CHR 0x9A, CHR 0x84, CHR 0xE8, CHR 0x82, CHR 0xA1, CHR 0xE7, CHR 0xA5,
     CHR 0xA8, CHR 0xE4, CHR 0xBB, CHR 0xA3, CHR 0xE7, CHR 0xA0, CHR 0x81, CHR 0xE6,
     CHR 0xA0, CHR 0xBC, CHR 0xE5, CHR 0xBC, CHR 0x8F] @ '': ''"

text \<open>(the three accepted formats).\<close>

definition err_bad_code_post :: string where
  "err_bad_code_post = '' (A'' @ [CHR 0xE8, CHR 0x82, CHR 0xA1] @ ''6'' @ [CHR 0xE4,
     CHR 0xBD, CHR 0x8D, CHR 0xE6, CHR 0x95, CHR 0xB0, CHR 0xE5, CHR 0xAD,
     CHR 0x97] @ '' / '' @ [CHR 0xE6, CHR 0xB8, CHR 0xAF, CHR 0xE8, CHR 0x82,
     CHR 0xA1] @ ''hk+5'' @ [CHR 0xE4, CHR 0xBD, CHR 0x8D, CHR 0xE6, CHR 0x95, CHR 0xB0,
     CHR 0xE5, CHR 0xAD, CHR 0x97] @ '' / '' @ [CHR 0xE7, CHR 0xBE, CHR 0x8E, CHR 0xE8,
     CHR 0x82, CHR 0xA1] @ ''1-5'' @ [CHR 0xE4, CHR 0xB8, CHR 0xAA, CHR 0xE5, CHR 0xAD,
     CHR 0x97, CHR 0xE6, CHR 0xAF, CHR 0x8D] @ '')''"

text \<open>Submitting the task failed: (followed by the exception).\<close>

definition err_submit_failed_pre :: string where
  "err_submit_failed_pre = [CHR 0xE6, CHR 0x8F, CHR 0x90, CHR 0xE4, CHR 0xBA, CHR 0xA4,
     CHR 0xE4, CHR 0xBB, CHR 0xBB, CHR 0xE5, CHR 0x8A, CHR 0xA1, CHR 0xE5, CHR 0xA4,
     CHR 0xB1, CHR 0xE8, CHR 0xB4, CHR 0xA5] @ '': ''"

section \<open>Task records and the task map\<close>

text \<open>One entry of a task's \<^verbatim>\<open>logs\<close> list: \<^verbatim>\<open>{"ts": ..., "level": ..., "msg": ...}\<close>.\<close>

record log_entry =
  ts :: string
  level :: string
  msg :: string

text \<open>
  The task dict written by \<^verbatim>\<open>_run_analysis\<close> and \<^verbatim>\<open>_run_market_review\<close>. The keys
  \<^verbatim>\<open>kind\<close> and \<^verbatim>\<open>end_time\<close> are absent from some dicts (\<open>None\<close> here); \<^verbatim>\<open>result\<close> and
  \<^verbatim>\<open>error\<close> hold Python's \<^verbatim>\<open>None\<close> until they are written.
\<close>

record task =
  task_id :: string
  code :: string
  kind :: "string option"
  status :: string
  start_time :: string
  end_time :: "string option"
  result :: "pydict option"
  error :: "string option"
  report_type :: string
  send_notification :: bool
  stage :: string
  progress :: int
  logs :: "log_entry list"

type_synonym registry = "(string \<times> task) list"

text \<open>\<^verbatim>\<open>self._max_task_logs = 200\<close>, set in \<^verbatim>\<open>__init__\<close>.\<close>

definition max_task_logs :: nat where
  "max_task_logs = 200"

text \<open>\<^verbatim>\<open>get_task_status\<close>: \<^verbatim>\<open>self._tasks.get(task_id)\<close>.\<close>

definition get_task_status :: "registry \<Rightarrow> string \<Rightarrow> task option" where
  "get_task_status reg tid = map_of reg tid"

text \<open>
  \<^verbatim>\<open>list_tasks\<close>: the values of the dict, sorted by \<^verbatim>\<open>start_time\<close> in reverse, then
  \<^verbatim>\<open>tasks[:limit]\<close>.
\<close>

definition list_tasks :: "registry \<Rightarrow> int \<Rightarrow> task list" where
  "list_tasks reg limit = slice_upto limit (sort_reverse start_time (map snd reg))"

text \<open>
  \<^verbatim>\<open>_append_task_log\<close>. The first argument is the value of \<^verbatim>\<open>datetime.now().isoformat()\<close>
  read by the call. An unknown id leaves the map as it is. The entry is appended, the
  list is cut to its last \<^const>\<open>max_task_logs\<close> entries when it is longer than that, and
  \<^verbatim>\<open>stage\<close> and \<^verbatim>\<open>progress\<close> are overwritten when given.
\<close>

definition append_task_log ::
  "string \<Rightarrow> string \<Rightarrow> string \<Rightarrow> string \<Rightarrow> string option \<Rightarrow> int option \<Rightarrow> registry \<Rightarrow> registry"
where
  "append_task_log now tid lvl message stage_opt progress_opt reg =
     (let entry = \<lparr>ts = now, level = lvl, msg = message\<rparr> in
      case map_of reg tid of
        None \<Rightarrow> reg
      | Some t \<Rightarrow>
          let logs1 = logs t @ [entry];
              logs2 = (if length logs1 > max_task_logs
                       then slice_last max_task_logs logs1 else logs1);
              t1 = t\<lparr>logs := logs2\<rparr>;
              t2 = (case stage_opt of None \<Rightarrow> t1 | Some s \<Rightarrow> t1\<lparr>stage := s\<rparr>);
              t3 = (case progress_opt of None \<Rightarrow> t2 | Some p \<Rightarrow> t2\<lparr>progress := p\<rparr>)
          in AList.update tid t3 reg)"

section \<open>The atomic operations of a job on the task map\<close>

text \<open>
  A job touches \<^verbatim>\<open>self._tasks\<close> only at its own \<^verbatim>\<open>task_id\<close>, and every access is one
  statement: a block under \<^verbatim>\<open>self._tasks_lock\<close> or one call of \<^verbatim>\<open>_append_task_log\<close>.
  An \<open>action\<close> is one such statement; the calls of the external collaborators are
  recorded between them as \<open>Call\<close>, and leave the map as it is.
\<close>

datatype collaborator =
    PipelineInit | FetchData | Analyze | RenderReport | RenderHtml | NotifierSend
  | ReviewInit | MarketReview

datatype action =
    CreateAnalysis string string bool
  | CreateMarketReview
  | AppendLog string string "string option" "int option"
  | SetResult pydict
  | MarkCompleted pydict
  | MarkFailed string
  | Call collaborator

text \<open>
  A step is an action with the \<^verbatim>\<open>task_id\<close> of its job and the value of
  \<^verbatim>\<open>datetime.now().isoformat()\<close> at that moment. \<open>exec\<close> runs one step; \<open>None\<close> is the
  \<^verbatim>\<open>KeyError\<close> of \<^verbatim>\<open>self._tasks[task_id]\<close> on an id that is not in the map.
  \<^item> \<open>CreateAnalysis code report_type send_notification\<close> is the assignment of the dict
    literal at the head of \<^verbatim>\<open>_run_analysis\<close>, \<open>CreateMarketReview\<close> the one at the head of
    \<^verbatim>\<open>_run_market_review\<close>;
  \<^item> \<open>AppendLog level message stage progress\<close> is a call of \<^verbatim>\<open>_append_task_log\<close>;
  \<^item> \<open>SetResult d\<close> is \<^verbatim>\<open>self._tasks[task_id]["result"] = d\<close>;
  \<^item> \<open>MarkCompleted d\<close> is \<^verbatim>\<open>.update({"status": "completed", "end_time": now, "result": d})\<close>;
  \<^item> \<open>MarkFailed e\<close> is \<^verbatim>\<open>.update({"status": "failed", "end_time": now, "error": e})\<close>.
\<close>

type_synonym step = "string \<times> string \<times> action"

fun exec :: "step \<Rightarrow> registry \<Rightarrow> registry option" where
  "exec (tid, now, CreateAnalysis c rt sn) reg =
     Some (AList.update tid
       \<lparr>task_id = tid, code = c, kind = None, status = ''running'', start_time = now,
        end_time = None, result = None, error = None, report_type = rt,
        send_notification = sn, stage = ''init'', progress = 0, logs = []\<rparr> reg)"
| "exec (tid, now, CreateMarketReview) reg =
     Some (AList.update tid
       \<lparr>task_id = tid, code = ''market'', kind = Some ''market_review'',
        status = ''running'', start_time = now, end_time = None, result = None,
        error = None, report_type = ''full'', send_notification = False,
        stage = ''market_review'', progress = 0, logs = []\<rparr> reg)"
| "exec (tid, now, AppendLog lvl message stage_opt progress_opt) reg =
     Some (append_task_log now tid lvl message stage_opt progress_opt reg)"
| "exec (tid, now, SetResult d) reg =
     (case map_of reg tid of
        None \<Rightarrow> None
      | Some t \<Rightarrow> Some (AList.update tid (t\<lparr>result := Some d\<rparr>) reg))"
| "exec (tid, now, MarkCompleted d) reg =
     (case map_of reg tid of
        None \<Rightarrow> None
      | Some t \<Rightarrow> Some (AList.update tid
          (t\<lparr>status := ''completed'', end_time := Some now, result := Some d\<rparr>) reg))"
| "exec (tid, now, MarkFailed e) reg =
     (case map_of reg tid of
        None \<Rightarrow> None
      | Some t \<Rightarrow> Some (AList.update tid
          (t\<lparr>status := ''failed'', end_time := Some now, error := Some e\<rparr>) reg))"
| "exec (tid, now, Call c) reg = Some reg"

text \<open>Steps in sequence; a \<^verbatim>\<open>KeyError\<close> ends the run.\<close>

fun run :: "step list \<Rightarrow> registry \<Rightarrow> registry option" where
  "run [] reg = Some reg"
| "run (s # ss) reg = (case exec s reg of None \<Rightarrow> None | Some reg' \<Rightarrow> run ss reg')"

text \<open>
  The steps of one job running alone: its actions in order, the \<open>i\<close>-th one at the time
  \<open>clock i\<close>.
\<close>

fun stamp :: "(nat \<Rightarrow> string) \<Rightarrow> string \<Rightarrow> action list \<Rightarrow> step list" where
  "stamp clock tid [] = []"
| "stamp clock tid (a # acts) = (tid, clock 0, a) # stamp (\<lambda>i. clock (Suc i)) tid acts"

section \<open>The collaborators of the analysis job\<close>

text \<open>
  \<^verbatim>\<open>src/enums.py\<close> is not among the sources. The orchestrator names the members
  \<^verbatim>\<open>ReportType.SIMPLE\<close> and \<^verbatim>\<open>ReportType.FULL\<close> and reads \<^verbatim>\<open>.value\<close>; the values are the
  strings the request layer and \<^verbatim>\<open>_run_market_review\<close> use for them.
  \<^verbatim>\<open>ReportType.from_str\<close> is a parameter of the functions that call it.
\<close>

datatype ReportType = SIMPLE | FULL

fun report_type_value :: "ReportType \<Rightarrow> string" where
  "report_type_value SIMPLE = ''simple''"
| "report_type_value FULL = ''full''"

text \<open>
  A call of a collaborator either raises, \<open>Inl e\<close> with \<open>e\<close> the text \<^verbatim>\<open>str(e)\<close> of the
  exception, or returns, \<open>Inr v\<close>.

  An \<^verbatim>\<open>AnalysisResult\<close> is read through \<^verbatim>\<open>to_dict()\<close> and \<^verbatim>\<open>operation_advice\<close>, and it is a
  plain object, so it is true in a condition. The pipeline built for one job answers the
  calls the job makes on it; \<^verbatim>\<open>to_dict\<close>, \<^verbatim>\<open>operation_advice\<close> and
  \<^verbatim>\<open>notifier.is_available()\<close> are accessors and return.
\<close>

record analysis_result =
  operation_advice :: string
  to_dict :: pydict

record pipeline =
  fetch_and_save_stock_data :: "string \<Rightarrow> string + (bool \<times> string option)"
  analyze_stock :: "string \<Rightarrow> string + analysis_result option"
  generate_dashboard_report :: "analysis_result list \<Rightarrow> string + string"
  generate_single_stock_report :: "analysis_result \<Rightarrow> string + string"
  notifier_is_available :: bool
  notifier_send :: "string \<Rightarrow> string + bool"

text \<open>
  What surrounds one run of \<^verbatim>\<open>_run_analysis\<close>: the two imports at the head of the
  \<^verbatim>\<open>try\<close> (\<open>Some e\<close>: they raise), \<^verbatim>\<open>get_config()\<close> with the constructor of the pipeline,
  and the block that turns the markdown into HTML (\<^verbatim>\<open>import markdown2\<close>, the conversion
  and the two \<^verbatim>\<open>re.sub\<close>), which is one \<^verbatim>\<open>try\<close> of its own.
\<close>

record analysis_env =
  import_pipeline :: "string option"
  new_pipeline :: "string + pipeline"
  markdown_to_html :: "string \<Rightarrow> string + string"

text \<open>\<^verbatim>\<open>str(x)\<close> inside an f-string, for an optional string.\<close>

fun str_of_optional :: "string option \<Rightarrow> string" where
  "str_of_optional None = ''None''"
| "str_of_optional (Some s) = s"

text \<open>\<^verbatim>\<open>result_data.get("report_markdown") or ""\<close>.\<close>

definition report_markdown_or_empty :: "pydict \<Rightarrow> string" where
  "report_markdown_or_empty d =
     (case map_of d ''report_markdown'' of Some (PStr s) \<Rightarrow> s | _ \<Rightarrow> [])"

section \<open>The single-instrument analysis job\<close>

text \<open>
  The optional push at the end of \<^verbatim>\<open>_run_analysis\<close>, entered when
  \<^verbatim>\<open>send_notification and pipeline.notifier.is_available()\<close>; it has a \<^verbatim>\<open>try\<close> of its own.
\<close>

definition notify_actions :: "pipeline \<Rightarrow> string \<Rightarrow> action list" where
  "notify_actions p report_content =
     AppendLog ''INFO'' msg_notifying (Some ''notify'') (Some 95) #
     (if report_content \<noteq> [] then
        Call NotifierSend #
        (case notifier_send p report_content of
           Inl e \<Rightarrow> [AppendLog ''ERROR'' (msg_notify_exception @ e) (Some ''notify'') (Some 97)]
         | Inr sent_ok \<Rightarrow>
             (if sent_ok
              then [AppendLog ''INFO'' msg_notify_ok (Some ''notify'') (Some 97)]
              else [AppendLog ''WARNING'' msg_notify_failed (Some ''notify'') (Some 97)]))
      else [AppendLog ''WARNING'' msg_notify_failed (Some ''notify'') (Some 97)])"

text \<open>
  The dict \<open>result_data\<close> in the branch \<^verbatim>\<open>if result:\<close>, once both texts are in it. It
  starts as \<^verbatim>\<open>result.to_dict()\<close>; an exception of the renderer stores the empty string
  under \<^verbatim>\<open>report_markdown\<close>, an exception of the HTML block stores it under
  \<^verbatim>\<open>report_html\<close>.
\<close>

definition rendered_result_data ::
  "analysis_env \<Rightarrow> pipeline \<Rightarrow> analysis_result \<Rightarrow> ReportType \<Rightarrow> pydict"
where
  "rendered_result_data env p res rt =
     (let result_data = to_dict res;
          rendered = (if rt = FULL then generate_dashboard_report p [res]
                      else generate_single_stock_report p res);
          result_data1 = AList.update ''report_markdown''
            (PStr (case rendered of Inl e \<Rightarrow> [] | Inr md \<Rightarrow> md)) result_data;
          report_md = report_markdown_or_empty result_data1
      in AList.update ''report_html''
           (PStr (case markdown_to_html env report_md of Inl e \<Rightarrow> [] | Inr html \<Rightarrow> html))
           result_data1)"

text \<open>
  The branch \<^verbatim>\<open>if result:\<close>. The map holds the dict object itself, so the two
  assignments to \<open>result_data\<close> show in the map at once; the actions write the dict at
  the three places where the source assigns it.
\<close>

definition analysis_success_actions ::
  "analysis_env \<Rightarrow> pipeline \<Rightarrow> analysis_result \<Rightarrow> ReportType \<Rightarrow> bool \<Rightarrow> action list"
where
  "analysis_success_actions env p res rt sn =
     (let result_data = to_dict res;
          result_data2 = rendered_result_data env p res rt
      in [SetResult result_data,
          AppendLog ''INFO'' msg_step3 (Some ''render_report'') (Some 85),
          Call RenderReport,
          Call RenderHtml,
          SetResult result_data2,
          AppendLog ''INFO'' msg_report_ready (Some ''render_report'') (Some 92)] @
         (if sn \<and> notifier_is_available p
          then notify_actions p (report_markdown_or_empty result_data2) else []) @
         [MarkCompleted result_data2,
          AppendLog ''INFO'' msg_task_done (Some ''done'') (Some 100)])"

text \<open>
  The body of the outer \<^verbatim>\<open>try\<close>: the actions done, and the exception that left the body,
  if one did.
\<close>

definition analysis_try_actions ::
  "analysis_env \<Rightarrow> string \<Rightarrow> ReportType \<Rightarrow> bool \<Rightarrow> action list \<times> string option"
where
  "analysis_try_actions env c rt sn =
     (case import_pipeline env of
        Some e \<Rightarrow> ([], Some e)
      | None \<Rightarrow>
     let a1 = [AppendLog ''INFO'' msg_init_pipeline (Some ''init'') (Some 8),
               Call PipelineInit] in
     case new_pipeline env of
        Inl e \<Rightarrow> (a1, Some e)
      | Inr p \<Rightarrow>
     let a2 = a1 @ [AppendLog ''INFO'' msg_step1 (Some ''fetch_data'') (Some 18),
                    Call FetchData] in
     case fetch_and_save_stock_data p c of
        Inl e \<Rightarrow> (a2, Some e)
      | Inr (success, err) \<Rightarrow>
     let a3 = a2 @
          [if success
           then AppendLog ''INFO'' msg_data_ready (Some ''fetch_data'') (Some 35)
           else AppendLog ''WARNING''
                  (msg_fetch_failed_pre @ str_of_optional err @ msg_fetch_failed_post)
                  (Some ''fetch_data'') (Some 35),
           AppendLog ''INFO'' msg_step2 (Some ''analyze'') (Some 55),
           Call Analyze] in
     case analyze_stock p c of
        Inl e \<Rightarrow> (a3, Some e)
      | Inr None \<Rightarrow>
          (a3 @ [MarkFailed err_empty_analysis,
                 AppendLog ''ERROR'' msg_empty_analysis (Some ''failed'') (Some 100)], None)
      | Inr (Some res) \<Rightarrow> (a3 @ analysis_success_actions env p res rt sn, None))"

text \<open>
  \<^verbatim>\<open>_run_analysis\<close>: the record is created, the first log line written, then the
  \<^verbatim>\<open>try\<close>; the handler \<^verbatim>\<open>except Exception\<close> marks the task failed with the text of the
  exception. The dict the function returns goes to the pool's future, which nobody reads.
\<close>

definition run_analysis_actions ::
  "analysis_env \<Rightarrow> string \<Rightarrow> ReportType \<Rightarrow> bool \<Rightarrow> action list"
where
  "run_analysis_actions env c rt sn =
     [CreateAnalysis c (report_type_value rt) sn,
      AppendLog ''INFO'' (msg_task_start @ c) (Some ''init'') (Some 3)] @
     (case analysis_try_actions env c rt sn of
        (acts, None) \<Rightarrow> acts
      | (acts, Some error_msg) \<Rightarrow>
          acts @ [MarkFailed error_msg,
                  AppendLog ''ERROR'' (msg_task_exception @ error_msg)
                    (Some ''failed'') (Some 100)])"

definition run_analysis ::
  "analysis_env \<Rightarrow> (nat \<Rightarrow> string) \<Rightarrow> string \<Rightarrow> string \<Rightarrow> ReportType \<Rightarrow> bool \<Rightarrow>
   registry \<Rightarrow> registry option"
where
  "run_analysis env clock c tid rt sn reg =
     run (stamp clock tid (run_analysis_actions env c rt sn)) reg"

section \<open>The market review\<close>

subsection \<open>\<^verbatim>\<open>run_market_review\<close> of \<^verbatim>\<open>src/core/market_review.py\<close>\<close>

text \<open>
  The notifier handed to \<^verbatim>\<open>run_market_review\<close>, by the outcome of its three methods;
  \<^verbatim>\<open>save_report_to_file\<close> takes the content and the file name.
\<close>

record notifier =
  save_report_to_file :: "string \<Rightarrow> string \<Rightarrow> string + string"
  is_available :: bool
  send :: "string \<Rightarrow> string + bool"

text \<open>
  The \<^verbatim>\<open>MarketAnalyzer\<close> the function builds: the outcome of \<^verbatim>\<open>run_daily_review()\<close>, whether
  the attribute \<^verbatim>\<open>last_overview\<close> is there and not \<^verbatim>\<open>None\<close>, and the outcome of
  \<^verbatim>\<open>format_overview_markdown\<close> on it.
\<close>

record market_analyzer =
  run_daily_review :: "string + string option"
  has_last_overview :: bool
  format_overview_markdown :: "string + string"

datatype SearchService = SearchService "string list" "string list" "string list"

datatype GeminiAnalyzer = GeminiAnalyzer string

text \<open>
  What surrounds \<^verbatim>\<open>run_market_review\<close>: the constructor of \<^verbatim>\<open>MarketAnalyzer\<close> for the given
  search service and analyzer, and \<^verbatim>\<open>datetime.now().strftime('%Y%m%d')\<close>.
\<close>

record review_world =
  new_market_analyzer ::
    "SearchService option \<Rightarrow> GeminiAnalyzer option \<Rightarrow> string + market_analyzer"
  date_str :: string

text \<open>
  Every exception inside is caught by the one \<^verbatim>\<open>try\<close> of the function, which then
  returns \<^verbatim>\<open>None\<close>; so does an empty or absent review. Otherwise the report is saved,
  pushed when the notifier is available, and returned.
\<close>

definition run_market_review ::
  "review_world \<Rightarrow> notifier \<Rightarrow> GeminiAnalyzer option \<Rightarrow> SearchService option \<Rightarrow> string option"
where
  "run_market_review w ntf analyzer search_service =
     (case new_market_analyzer w search_service analyzer of
        Inl e \<Rightarrow> None
      | Inr ma \<Rightarrow>
     case run_daily_review ma of
        Inl e \<Rightarrow> None
      | Inr None \<Rightarrow> None
      | Inr (Some review_report) \<Rightarrow>
     if review_report = [] then None
     else
       let snapshot_md =
             (if has_last_overview ma
              then (case format_overview_markdown ma of Inl e \<Rightarrow> [] | Inr md \<Rightarrow> md)
              else []);
           full_report =
             (if snapshot_md \<noteq> [] then snapshot_md @ snapshot_separator @ review_report
              else review_report);
           report_filename = ''market_review_'' @ date_str w @ ''.md''
       in case save_report_to_file ntf (review_heading @ full_report) report_filename of
            Inl e \<Rightarrow> None
          | Inr filepath \<Rightarrow>
              if is_available ntf
              then (case send ntf (review_push_heading @ full_report) of
                      Inl e \<Rightarrow> None
                    | Inr success \<Rightarrow> Some full_report)
              else Some full_report)"

subsection \<open>\<^verbatim>\<open>_run_market_review\<close> of \<^verbatim>\<open>web/services.py\<close>\<close>

text \<open>
  The fields of the configuration object that the job reads (\<^verbatim>\<open>src/config.py\<close> is not
  among the sources): three lists of keys and an optional key.
\<close>

record config =
  bocha_api_keys :: "string list"
  tavily_api_keys :: "string list"
  serpapi_keys :: "string list"
  gemini_api_key :: "string option"

text \<open>
  What surrounds one run of \<^verbatim>\<open>_run_market_review\<close>: the imports at the head of the
  \<^verbatim>\<open>try\<close>, \<^verbatim>\<open>get_config()\<close>, the import and the constructor of the search service and of
  the analyzer, the world of \<^verbatim>\<open>run_market_review\<close>, what writing the report file does
  (content and file name), and the markdown to HTML block.
\<close>

record review_env =
  import_review :: "string option"
  get_config :: "string + config"
  import_search_service :: "string option"
  new_search_service :: "string list \<Rightarrow> string list \<Rightarrow> string list \<Rightarrow> string + SearchService"
  import_analyzer :: "string option"
  new_gemini_analyzer :: "string \<Rightarrow> string + GeminiAnalyzer"
  world :: review_world
  write_report :: "string \<Rightarrow> string \<Rightarrow> string + string"
  review_to_html :: "string \<Rightarrow> string + string"

text \<open>The local class \<^verbatim>\<open>_WebUINotifier\<close>: it saves the file and never pushes.\<close>

definition WebUINotifier :: "(string \<Rightarrow> string \<Rightarrow> string + string) \<Rightarrow> notifier" where
  "WebUINotifier wr = \<lparr>save_report_to_file = wr, is_available = False, send = (\<lambda>c. Inr False)\<rparr>"

text \<open>
  The two optional collaborators, each in a \<^verbatim>\<open>try\<close> of its own that logs a warning
  (without stage or progress) and goes on: the object, if one was built, and the log
  actions.
\<close>

definition init_search_service :: "review_env \<Rightarrow> config \<Rightarrow> SearchService option \<times> action list" where
  "init_search_service env cfg =
     (case import_search_service env of
        Some e \<Rightarrow> (None, [AppendLog ''WARNING'' (msg_search_init_failed @ e) None None])
      | None \<Rightarrow>
          if bocha_api_keys cfg \<noteq> [] \<or> tavily_api_keys cfg \<noteq> [] \<or> serpapi_keys cfg \<noteq> []
          then (case new_search_service env (bocha_api_keys cfg) (tavily_api_keys cfg)
                       (serpapi_keys cfg) of
                  Inl e \<Rightarrow> (None, [AppendLog ''WARNING'' (msg_search_init_failed @ e) None None])
                | Inr s \<Rightarrow> (Some s, []))
          else (None, []))"

definition init_analyzer :: "review_env \<Rightarrow> config \<Rightarrow> GeminiAnalyzer option \<times> action list" where
  "init_analyzer env cfg =
     (case import_analyzer env of
        Some e \<Rightarrow> (None, [AppendLog ''WARNING'' (msg_analyzer_init_failed @ e) None None])
      | None \<Rightarrow>
          (case gemini_api_key cfg of
             None \<Rightarrow> (None, [])
           | Some k \<Rightarrow>
               if k \<noteq> []
               then (case new_gemini_analyzer env k of
                       Inl e \<Rightarrow>
                         (None, [AppendLog ''WARNING'' (msg_analyzer_init_failed @ e) None None])
                     | Inr a \<Rightarrow> (Some a, []))
               else (None, [])))"

text \<open>The body of the \<^verbatim>\<open>try\<close> of \<^verbatim>\<open>_run_market_review\<close>.\<close>

definition market_review_try_actions :: "review_env \<Rightarrow> action list \<times> string option" where
  "market_review_try_actions env =
     (case import_review env of
        Some e \<Rightarrow> ([], Some e)
      | None \<Rightarrow>
     case get_config env of
        Inl e \<Rightarrow> ([Call ReviewInit], Some e)
      | Inr cfg \<Rightarrow>
     let (search_service, a1) = init_search_service env cfg;
         (analyzer, a2) = init_analyzer env cfg;
         a3 = [Call ReviewInit] @ a1 @ a2 @
              [AppendLog ''INFO'' msg_review_running (Some ''market_review'') (Some 35),
               Call MarketReview];
         review = run_market_review (world env) (WebUINotifier (write_report env))
                    analyzer search_service
     in case review of
          None \<Rightarrow>
            (a3 @ [MarkFailed err_empty_review,
                   AppendLog ''ERROR'' msg_empty_review (Some ''failed'') (Some 100)], None)
        | Some rv \<Rightarrow>
            if rv = [] then
              (a3 @ [MarkFailed err_empty_review,
                     AppendLog ''ERROR'' msg_empty_review (Some ''failed'') (Some 100)], None)
            else
              let report_md = review_heading @ rv;
                  result_data =
                    [(''name'', PStr review_name),
                     (''report_markdown'', PStr report_md),
                     (''analysis_summary'', PStr []),
                     (''trend_prediction'', PStr []),
                     (''operation_advice'', PStr [])];
                  result_data1 = AList.update ''report_html''
                    (PStr (case review_to_html env report_md of Inl e \<Rightarrow> [] | Inr html \<Rightarrow> html))
                    result_data
              in (a3 @ [Call RenderHtml,
                        MarkCompleted result_data1,
                        AppendLog ''INFO'' msg_review_done (Some ''done'') (Some 100)], None))"

definition run_market_review_actions :: "review_env \<Rightarrow> action list" where
  "run_market_review_actions env =
     [CreateMarketReview,
      AppendLog ''INFO'' msg_review_start (Some ''market_review'') (Some 5)] @
     (case market_review_try_actions env of
        (acts, None) \<Rightarrow> acts
      | (acts, Some err) \<Rightarrow>
          acts @ [MarkFailed err,
                  AppendLog ''ERROR'' (msg_task_exception @ err) (Some ''failed'') (Some 100)])"


section \<open>Submission\<close>

text \<open>
  The service: the task map and the jobs handed to the thread pool, in the order of
  submission. A job is the bound method with its arguments.
\<close>

typedecl BotMessage

datatype job =
    RunAnalysis string string ReportType "BotMessage option" bool
  | RunMarketReview string

record service =
  tasks :: registry
  submitted :: "job list"

text \<open>The dict \<^verbatim>\<open>submit_analysis\<close> returns.\<close>

record submit_result =
  sub_success :: bool
  sub_message :: string
  sub_code :: string
  sub_task_id :: string
  sub_report_type :: string
  sub_send_notification :: bool

text \<open>
  \<^verbatim>\<open>submit_analysis\<close>. \<open>from_str\<close> is \<^verbatim>\<open>ReportType.from_str\<close>, \<open>pool_error\<close> the exception
  of \<^verbatim>\<open>self.executor.submit\<close> if it raises one, \<open>now\<close> the text of
  \<^verbatim>\<open>datetime.now().strftime('%Y%m%d_%H%M%S_%f')\<close>. The report type \<open>rtype\<close> is an enum
  member (\<open>Inl\<close>) or a string (\<open>Inr\<close>); \<open>notify\<close> is the argument \<^verbatim>\<open>send_notification\<close>.
\<close>

definition submit_analysis ::
  "(string \<Rightarrow> ReportType) \<Rightarrow> string option \<Rightarrow> string \<Rightarrow> string \<Rightarrow> ReportType + string \<Rightarrow>
   BotMessage option \<Rightarrow> bool option \<Rightarrow> service \<Rightarrow> string + (submit_result \<times> service)"
where
  "submit_analysis from_str pool_error now c rtype source_message notify svc =
     (let rt = (case rtype of Inl r \<Rightarrow> r | Inr s \<Rightarrow> from_str s);
          sn = (case notify of None \<Rightarrow> source_message \<noteq> None | Some b \<Rightarrow> b);
          tid = c @ ''_'' @ now
      in case pool_error of
           Some e \<Rightarrow> Inl e
         | None \<Rightarrow>
             Inr (\<lparr>sub_success = True,
                   sub_message = (if \<not> sn then msg_submitted_webui else msg_submitted_push),
                   sub_code = c,
                   sub_task_id = tid,
                   sub_report_type = report_type_value rt,
                   sub_send_notification = sn\<rparr>,
                  svc\<lparr>submitted := submitted svc @ [RunAnalysis c tid rt source_message sn]\<rparr>))"

section \<open>The request handlers\<close>

text \<open>
  The handlers of \<^verbatim>\<open>web/handlers.py\<close> work on text. The model is exact on ASCII text;
  bytes above \<open>0x7F\<close> are taken as characters that are no digit, no letter and no
  white space.
\<close>

definition is_space :: "char \<Rightarrow> bool" where
  "is_space c = (c \<in> set [CHR 0x09, CHR 0x0A, CHR 0x0B, CHR 0x0C, CHR 0x0D,
                            CHR 0x1C, CHR 0x1D, CHR 0x1E, CHR 0x1F, CHR 0x20])"

definition strip :: "string \<Rightarrow> string" where
  "strip s = rev (dropWhile is_space (rev (dropWhile is_space s)))"

definition is_digit :: "char \<Rightarrow> bool" where
  "is_digit c = (c \<in> set ''0123456789'')"

definition is_upper :: "char \<Rightarrow> bool" where
  "is_upper c = (c \<in> set ''ABCDEFGHIJKLMNOPQRSTUVWXYZ'')"

definition lower_char :: "char \<Rightarrow> char" where
  "lower_char c =
     (case map_of (zip ''ABCDEFGHIJKLMNOPQRSTUVWXYZ'' ''abcdefghijklmnopqrstuvwxyz'') c of
        None \<Rightarrow> c | Some d \<Rightarrow> d)"

definition upper_char :: "char \<Rightarrow> char" where
  "upper_char c =
     (case map_of (zip ''abcdefghijklmnopqrstuvwxyz'' ''ABCDEFGHIJKLMNOPQRSTUVWXYZ'') c of
        None \<Rightarrow> c | Some d \<Rightarrow> d)"

definition lower :: "string \<Rightarrow> string" where
  "lower s = map lower_char s"

definition upper :: "string \<Rightarrow> string" where
  "upper s = map upper_char s"

text \<open>\<^verbatim>\<open>$\<close> of \<^verbatim>\<open>re\<close>: the end of the text, or just before a newline that ends it.\<close>

definition at_end :: "string \<Rightarrow> bool" where
  "at_end s = (s = [] \<or> s = [CHR 0x0A])"

text \<open>\<^verbatim>\<open>\d{n}$\<close> matched at the head of the text.\<close>

definition digits_then_end :: "nat \<Rightarrow> string \<Rightarrow> bool" where
  "digits_then_end n s = (n \<le> length s \<and> list_all is_digit (take n s) \<and> at_end (drop n s))"

text \<open>\<^verbatim>\<open>re.match(r'^\d{6}$', code)\<close>.\<close>

definition match_a_stock :: "string \<Rightarrow> bool" where
  "match_a_stock s = digits_then_end 6 s"

text \<open>\<^verbatim>\<open>re.match(r'^hk\d{5}$', code)\<close>.\<close>

definition match_hk_stock :: "string \<Rightarrow> bool" where
  "match_hk_stock s = (take 2 s = ''hk'' \<and> digits_then_end 5 (drop 2 s))"

text \<open>
  \<^verbatim>\<open>re.match(r'^[A-Z]{1,5}(\.[A-Z])?$', s)\<close>: the leading run of capital letters has one
  to five letters (a shorter part of it would be followed by a capital letter, which
  neither the group nor \<^verbatim>\<open>$\<close> accepts), and what follows is the end, or a dot, one
  capital letter and the end.
\<close>

definition match_us_stock :: "string \<Rightarrow> bool" where
  "match_us_stock s =
     (let k = length (takeWhile is_upper s); r = drop k s
      in 1 \<le> k \<and> k \<le> 5 \<and>
         (at_end r \<or>
          (case r of
             d # u # r' \<Rightarrow> d = CHR ''.'' \<and> is_upper u \<and> at_end r'
           | _ \<Rightarrow> False)))"

text \<open>\<^verbatim>\<open>re.match(r'^01\d{4}$', code)\<close>.\<close>

definition match_fund_code :: "string \<Rightarrow> bool" where
  "match_fund_code s = (take 2 s = ''01'' \<and> digits_then_end 4 (drop 2 s))"

text \<open>
  \<^verbatim>\<open>int(s)\<close> on a string, base ten: white space around, one optional sign, digits with
  single underscores between them. \<open>None\<close> is the \<^verbatim>\<open>ValueError\<close>. (The limit that newer
  interpreters put on the number of digits is left out.)
\<close>

definition digit_value :: "char \<Rightarrow> nat" where
  "digit_value c = of_char c - 48"

fun digits_value :: "nat \<Rightarrow> string \<Rightarrow> nat option" where
  "digits_value acc [] = Some acc"
| "digits_value acc (c # cs) =
     (if is_digit c then digits_value (10 * acc + digit_value c) cs
      else if c = CHR ''_'' then
        (case cs of
           [] \<Rightarrow> None
         | d # ds \<Rightarrow> if is_digit d then digits_value acc cs else None)
      else None)"

definition py_int :: "string \<Rightarrow> int option" where
  "py_int s =
     (let t = strip s;
          (neg, digits) =
            (case t of
               [] \<Rightarrow> (False, [])
             | c # r \<Rightarrow> if c = CHR ''-'' then (True, r)
                        else if c = CHR ''+'' then (False, r) else (False, t))
      in case digits of
           [] \<Rightarrow> None
         | c # cs \<Rightarrow>
             if is_digit c
             then map_option (\<lambda>n. if neg then - int n else int n) (digits_value 0 digits)
             else None)"

text \<open>
  A query is the dict of \<^verbatim>\<open>parse_qs\<close>, from a name to the list of its values. A response
  is the HTTP status and the JSON body; an exception that leaves a handler is \<open>Inl\<close>.
\<close>

type_synonym query = "(string \<times> string list) list"

datatype py_error = IndexError

datatype json_body =
    ErrorBody string
  | SubmitBody submit_result
  | TasksBody "task list"

record response =
  http_status :: nat
  body :: json_body

text \<open>
  \<^verbatim>\<open>ApiHandler.handle_analysis\<close>. The first three arguments are those of
  \<^const>\<open>submit_analysis\<close>.
\<close>

definition handle_analysis ::
  "(string \<Rightarrow> ReportType) \<Rightarrow> string option \<Rightarrow> string \<Rightarrow> query \<Rightarrow> service \<Rightarrow>
   py_error + (response \<times> service)"
where
  "handle_analysis from_str pool_error now q svc =
     (let code_list = (case map_of q ''code'' of None \<Rightarrow> [] | Some l \<Rightarrow> l) in
      if code_list = [] \<or> strip (hd code_list) = [] then
        Inr (\<lparr>http_status = 400, body = ErrorBody err_missing_code\<rparr>, svc)
      else
        let c = lower (strip (hd code_list));
            is_a_stock = match_a_stock c;
            is_hk_stock = match_hk_stock c;
            is_us_stock = match_us_stock (upper c)
        in if is_a_stock \<and> match_fund_code c then
             Inr (\<lparr>http_status = 400,
                   body = ErrorBody (err_fund_code_pre @ c @ err_fund_code_post)\<rparr>, svc)
           else if \<not> (is_a_stock \<or> is_hk_stock \<or> is_us_stock) then
             Inr (\<lparr>http_status = 400,
                   body = ErrorBody (err_bad_code_pre @ c @ err_bad_code_post)\<rparr>, svc)
           else
             (case (case map_of q ''report_type'' of None \<Rightarrow> [''simple''] | Some l \<Rightarrow> l) of
                [] \<Rightarrow> Inl IndexError
              | report_type_str # _ \<Rightarrow>
                  (case submit_analysis from_str pool_error now c
                          (Inl (from_str report_type_str)) None None svc of
                     Inr (res, svc') \<Rightarrow> Inr (\<lparr>http_status = 200, body = SubmitBody res\<rparr>, svc')
                   | Inl e \<Rightarrow>
                       Inr (\<lparr>http_status = 500,
                             body = ErrorBody (err_submit_failed_pre @ e)\<rparr>, svc))))"

text \<open>\<^verbatim>\<open>ApiHandler.handle_tasks\<close>: only \<^verbatim>\<open>ValueError\<close> is caught around \<^verbatim>\<open>int\<close>.\<close>

definition handle_tasks :: "query \<Rightarrow> service \<Rightarrow> py_error + response" where
  "handle_tasks q svc =
     (case (case map_of q ''limit'' of None \<Rightarrow> [''20''] | Some l \<Rightarrow> l) of
        [] \<Rightarrow> Inl IndexError
      | limit_str # _ \<Rightarrow>
          let limit = (case py_int limit_str of None \<Rightarrow> 20 | Some n \<Rightarrow> n)
          in Inr \<lparr>http_status = 200, body = TasksBody (list_tasks (tasks svc) limit)\<rparr>)"

section \<open>What a reader of the map sees\<close>

text \<open>
  The maps a schedule of steps goes through, from the first one on; a \<^verbatim>\<open>KeyError\<close> ends
  the list.
\<close>

fun states :: "step list \<Rightarrow> registry \<Rightarrow> registry list" where
  "states [] reg = [reg]"
| "states (s # ss) reg =
     reg # (case exec s reg of None \<Rightarrow> [] | Some reg' \<Rightarrow> states ss reg')"

text \<open>The \<^verbatim>\<open>status\<close> that \<^verbatim>\<open>get_task_status\<close> shows for an id, \<open>None\<close> when it shows no record.\<close>

definition status_at :: "string \<Rightarrow> registry \<Rightarrow> string option" where
  "status_at tid reg = map_option status (get_task_status reg tid)"

text \<open>The values the status of an id takes along a schedule, each change once.\<close>

definition observed_statuses :: "string \<Rightarrow> step list \<Rightarrow> registry \<Rightarrow> string option list" where
  "observed_statuses tid sched reg = remdups_adj (map (status_at tid) (states sched reg))"

text \<open>The actions a schedule holds for one id, in order.\<close>

definition actions_of :: "string \<Rightarrow> step list \<Rightarrow> action list" where
  "actions_of tid sched = map (\<lambda>s. snd (snd s)) (filter (\<lambda>s. fst s = tid) sched)"

text \<open>The status an action writes, if it writes one.\<close>

fun status_written :: "action \<Rightarrow> string option" where
  "status_written (CreateAnalysis c rt sn) = Some ''running''"
| "status_written CreateMarketReview = Some ''running''"
| "status_written (MarkCompleted d) = Some ''completed''"
| "status_written (MarkFailed e) = Some ''failed''"
| "status_written (AppendLog lvl message st pr) = None"
| "status_written (SetResult d) = None"
| "status_written (Call c) = None"

text \<open>The statuses that the steps of a schedule write under one id, in order.\<close>

definition statuses_written :: "string \<Rightarrow> step list \<Rightarrow> string list" where
  "statuses_written tid sched = List.map_filter status_written (actions_of tid sched)"

section \<open>Sample data\<close>

text \<open>A task as \<^verbatim>\<open>_run_analysis\<close> creates it, with the given id and start time.\<close>

definition sample_task :: "string \<Rightarrow> string \<Rightarrow> task" where
  "sample_task tid t0 =
     \<lparr>task_id = tid, code = ''600519'', kind = None, status = ''running'', start_time = t0,
      end_time = None, result = None, error = None, report_type = ''simple'',
      send_notification = False, stage = ''init'', progress = 0, logs = []\<rparr>"

definition sample_entry :: log_entry where
  "sample_entry = \<lparr>ts = ''2026-01-19T10:30:00'', level = ''INFO'', msg = ''old''\<rparr>"

text \<open>Three tasks, in the order in which they were created.\<close>

definition sample_registry :: registry where
  "sample_registry =
     [(''600519_20260119_103000_000001'',
         sample_task ''600519_20260119_103000_000001'' ''2026-01-19T10:30:00.000002''),
      (''000001_20260119_103100_000001'',
         sample_task ''000001_20260119_103100_000001'' ''2026-01-19T10:31:00.000002''),
      (''600036_20260119_102900_000001'',
         sample_task ''600036_20260119_102900_000001'' ''2026-01-19T10:29:00.000002'')]"

text \<open>A task that has run to its end, under the id of the first sample task.\<close>

definition finished_task :: task where
  "finished_task =
     (sample_task ''600519_20260119_103000_000001'' ''2026-01-19T10:30:00.000002'')
       \<lparr>status := ''completed'', end_time := Some ''2026-01-19T10:31:10.000000'',
        result := Some [(''operation_advice'', PStr ''hold'')], stage := ''done'',
        progress := 100, logs := [sample_entry]\<rparr>"

text \<open>The two actions that create a record.\<close>

fun is_create :: "action \<Rightarrow> bool" where
  "is_create (CreateAnalysis c rt sn) = True"
| "is_create CreateMarketReview = True"
| "is_create a = False"

text \<open>A clock: the \<open>i\<close>-th reading is \<open>i\<close> seconds after 10:30:00.\<close>

definition sample_clock :: "nat \<Rightarrow> string" where
  "sample_clock i =
     ''2026-01-19T10:30:'' @ [''0123456789'' ! (i div 10 mod 6), ''0123456789'' ! (i mod 10)]"

text \<open>
  A pipeline whose data fetch reports a failure and whose renderer for single reports
  raises, while the analysis returns a result.
\<close>

definition sample_result :: analysis_result where
  "sample_result =
     \<lparr>operation_advice = ''hold'',
      to_dict = [(''operation_advice'', PStr ''hold''), (''sentiment_score'', PInt 60)]\<rparr>"

definition sample_pipeline :: pipeline where
  "sample_pipeline =
     \<lparr>fetch_and_save_stock_data = (\<lambda>c. Inr (False, Some ''timeout'')),
      analyze_stock = (\<lambda>c. Inr (Some sample_result)),
      generate_dashboard_report = (\<lambda>rs. Inr ''# dashboard''),
      generate_single_stock_report = (\<lambda>r. Inl ''template error''),
      notifier_is_available = False,
      notifier_send = (\<lambda>content. Inr False)\<rparr>"

definition sample_env :: analysis_env where
  "sample_env =
     \<lparr>import_pipeline = None,
      new_pipeline = Inr sample_pipeline,
      markdown_to_html = (\<lambda>md. Inr md)\<rparr>"

text \<open>
  A market review in which the daily review returns nothing: no keys are configured,
  so neither the search service nor the analyzer is built.
\<close>

definition sample_review_env :: review_env where
  "sample_review_env =
     \<lparr>import_review = None,
      get_config = Inr \<lparr>bocha_api_keys = [], tavily_api_keys = [], serpapi_keys = [],
                       gemini_api_key = None\<rparr>,
      import_search_service = None,
      new_search_service = (\<lambda>b t s. Inr (SearchService b t s)),
      import_analyzer = None,
      new_gemini_analyzer = (\<lambda>k. Inr (GeminiAnalyzer k)),
      world = \<lparr>new_market_analyzer =
                 (\<lambda>s a. Inr \<lparr>run_daily_review = Inr None, has_last_overview = False,
                              format_overview_markdown = Inr []\<rparr>),
               date_str = ''20260119''\<rparr>,
      write_report = (\<lambda>content filename. Inr (''reports/'' @ filename)),
      review_to_html = (\<lambda>md. Inr md)\<rparr>"

text \<open>
  The beginning of an analysis job for a new id, with a step of another job in between.
\<close>

definition sample_schedule :: "step list" where
  "sample_schedule =
     [(''600519_20260119_103200_000001'', sample_clock 0,
         CreateAnalysis ''600519'' ''simple'' False),
      (''000001_20260119_103100_000001'', sample_clock 1,
         AppendLog ''INFO'' msg_data_ready (Some ''fetch_data'') (Some 35)),
      (''600519_20260119_103200_000001'', sample_clock 2,
         AppendLog ''INFO'' (msg_task_start @ ''600519'') (Some ''init'') (Some 3))]"

section \<open>The bounded log\<close>

text \<open>
  Claim C2. For a task that is in the map, \<^verbatim>\<open>_append_task_log\<close> leaves at most
  \<^const>\<open>max_task_logs\<close> (200) entries in its \<^verbatim>\<open>logs\<close>; the list afterwards is the old list
  with the new entry at its end, less as many entries from the front as are needed to
  get down to 200: the most recent ones, in their order.
\<close>

theorem append_task_log_bounded:
  assumes "get_task_status reg tid = Some t"
  shows "\<exists>t'. get_task_status (append_task_log now tid lvl message stage_opt progress_opt reg) tid
              = Some t'
          \<and> length (logs t') \<le> max_task_logs
          \<and> logs t' = drop (length (logs t) + 1 - max_task_logs)
                         (logs t @ [\<lparr>ts = now, level = lvl, msg = message\<rparr>])"
  using assms
  by (auto simp: get_task_status_def append_task_log_def Let_def update_conv' slice_last_def
        max_task_logs_def split: option.splits)

theorem append_task_log_bounded_witness:
  "get_task_status [(''a'', (sample_task ''a'' ''t0'')\<lparr>logs := replicate 200 sample_entry\<rparr>)] ''a''
     = Some ((sample_task ''a'' ''t0'')\<lparr>logs := replicate 200 sample_entry\<rparr>)
   \<and> (\<exists>t'. get_task_status
              (append_task_log ''t2'' ''a'' ''INFO'' ''new'' None None
                 [(''a'', (sample_task ''a'' ''t0'')\<lparr>logs := replicate 200 sample_entry\<rparr>)]) ''a''
            = Some t'
          \<and> length (logs t') \<le> max_task_logs
          \<and> logs t' = replicate 199 sample_entry @ [\<lparr>ts = ''t2'', level = ''INFO'', msg = ''new''\<rparr>])"
  using append_task_log_bounded
    [of "[(''a'', (sample_task ''a'' ''t0'')\<lparr>logs := replicate 200 sample_entry\<rparr>)]" "''a''"
        "(sample_task ''a'' ''t0'')\<lparr>logs := replicate 200 sample_entry\<rparr>"
        "''t2''" "''INFO''" "''new''" None None]
  by (simp add: get_task_status_def max_task_logs_def sample_task_def)

section \<open>Listing the tasks\<close>

text \<open>
  Claim C3. For a limit that is not negative, \<^verbatim>\<open>list_tasks\<close> returns at most \<open>limit\<close>
  records, all of them records of the map, and a record never comes before one with a
  later \<^verbatim>\<open>start_time\<close>.
\<close>

theorem list_tasks_bounded_sorted:
  assumes "0 \<le> limit"
  shows "length (list_tasks reg limit) \<le> nat limit
     \<and> set (list_tasks reg limit) \<subseteq> snd ` set reg
     \<and> (\<forall>i j. i < j \<and> j < length (list_tasks reg limit) \<longrightarrow>
           start_time (list_tasks reg limit ! j) \<le> start_time (list_tasks reg limit ! i))"
proof -
  let ?s = "sort_reverse start_time (map snd reg)"
  have "sorted (map start_time (sort_key start_time (rev (map snd reg))))"
    by simp
  hence "sorted_wrt (\<lambda>x y. start_time x \<le> start_time y)
           (sort_key start_time (rev (map snd reg)))"
    by (simp only: sorted_map)
  hence "sorted_wrt (\<lambda>x y. start_time y \<le> start_time x) ?s"
    by (simp add: sort_reverse_def sorted_wrt_rev)
  hence "sorted_wrt (\<lambda>x y. start_time y \<le> start_time x) (take (nat limit) ?s)"
    by (rule sorted_wrt_take)
  moreover have "list_tasks reg limit = take (nat limit) ?s"
    using assms by (simp add: list_tasks_def slice_upto_def)
  moreover have "set (take (nat limit) ?s) \<subseteq> snd ` set reg"
    using set_take_subset[of "nat limit" ?s] by (simp add: sort_reverse_def)
  ultimately show ?thesis
    by (simp add: sorted_wrt_iff_nth_less)
qed

theorem list_tasks_bounded_sorted_witness:
  "(0::int) \<le> 2
   \<and> map start_time (list_tasks sample_registry 2)
       = [''2026-01-19T10:31:00.000002'', ''2026-01-19T10:30:00.000002'']
   \<and> length (list_tasks sample_registry 2) \<le> nat 2
   \<and> start_time (list_tasks sample_registry 2 ! 1)
         \<le> start_time (list_tasks sample_registry 2 ! 0)"
  using list_tasks_bounded_sorted[of 2 sample_registry]
  by (simp add: list_tasks_def sample_registry_def sample_task_def slice_upto_def
        sort_reverse_def)

section \<open>Creating a record\<close>

text \<open>
  Claim C8 says that creating a record under an id that is already in the map leaves the
  existing record as it is. The assignment \<^verbatim>\<open>self._tasks[task_id] = {...}\<close> has no such
  test: here a finished task is replaced by a fresh one in state \<^verbatim>\<open>running\<close>.
\<close>

theorem create_keeps_existing_counterexample:
  "get_task_status [(''600519_20260119_103000_000001'', finished_task)]
       ''600519_20260119_103000_000001'' = Some finished_task
   \<and> exec (''600519_20260119_103000_000001'', ''2026-01-19T10:30:00.000002'',
            CreateAnalysis ''600519'' ''simple'' False)
        [(''600519_20260119_103000_000001'', finished_task)]
      = Some [(''600519_20260119_103000_000001'',
               sample_task ''600519_20260119_103000_000001'' ''2026-01-19T10:30:00.000002'')]
   \<and> sample_task ''600519_20260119_103000_000001'' ''2026-01-19T10:30:00.000002''
       \<noteq> finished_task"
  by (simp add: finished_task_def sample_task_def get_task_status_def)

text \<open>
  Claim C8, amended. Creating a record (at the head of \<^verbatim>\<open>_run_analysis\<close> or of
  \<^verbatim>\<open>_run_market_review\<close>) always succeeds and puts a fresh record under the id: status
  \<^verbatim>\<open>running\<close>, the start time of the creation, no end time, no result, no error,
  progress 0 and no logs, whatever was there before. The records under the other ids
  stay as they are, the ids of the map are the old ones and this one, and when no id
  occurred twice before, none does afterwards: one record per id.
\<close>

theorem create_replaces_record:
  assumes "a = CreateAnalysis c rt sn \<or> a = CreateMarketReview"
  shows "\<exists>reg' t. exec (tid, now, a) reg = Some reg'
      \<and> get_task_status reg' tid = Some t
      \<and> task_id t = tid \<and> status t = ''running'' \<and> start_time t = now \<and> end_time t = None
      \<and> result t = None \<and> error t = None \<and> progress t = 0 \<and> logs t = []
      \<and> (\<forall>k. k \<noteq> tid \<longrightarrow> get_task_status reg' k = get_task_status reg k)
      \<and> fst ` set reg' = insert tid (fst ` set reg)
      \<and> (distinct (map fst reg) \<longrightarrow> distinct (map fst reg'))"
  using assms
  by (auto simp: get_task_status_def update_conv' dom_update distinct_update)

theorem create_replaces_record_witness:
  "(CreateAnalysis ''600519'' ''simple'' False = CreateAnalysis ''600519'' ''simple'' False
      \<or> CreateAnalysis ''600519'' ''simple'' False = CreateMarketReview)
   \<and> (\<exists>reg' t.
         exec (''600519_20260119_103000_000001'', ''2026-01-19T10:35:00.000002'',
               CreateAnalysis ''600519'' ''simple'' False)
           [(''600519_20260119_103000_000001'', finished_task)] = Some reg'
       \<and> get_task_status reg' ''600519_20260119_103000_000001'' = Some t
       \<and> status t = ''running'' \<and> start_time t = ''2026-01-19T10:35:00.000002''
       \<and> result t = None \<and> logs t = [] \<and> length reg' = 1)"
  using create_replaces_record
    [of "CreateAnalysis ''600519'' ''simple'' False" "''600519''" "''simple''" False
        "''600519_20260119_103000_000001''" "''2026-01-19T10:35:00.000002''"
        "[(''600519_20260119_103000_000001'', finished_task)]"]
  by (simp add: get_task_status_def)

section \<open>Rejecting off-market fund codes\<close>

lemma digit_cases:
  "is_digit x \<Longrightarrow>
     x = CHR ''0'' \<or> x = CHR ''1'' \<or> x = CHR ''2'' \<or> x = CHR ''3'' \<or> x = CHR ''4'' \<or>
     x = CHR ''5'' \<or> x = CHR ''6'' \<or> x = CHR ''7'' \<or> x = CHR ''8'' \<or> x = CHR ''9''"
  by (simp add: is_digit_def)

lemma digit_not_space: "is_digit x \<Longrightarrow> \<not> is_space x"
  by (drule digit_cases) (elim disjE; simp add: is_space_def)

lemma lower_char_digit: "is_digit x \<Longrightarrow> lower_char x = x"
  by (drule digit_cases) (elim disjE; simp add: lower_char_def)

lemma lower_digits: "list_all is_digit s \<Longrightarrow> lower s = s"
  unfolding lower_def
  by (rule map_idI) (simp add: list_all_iff lower_char_digit)

lemma strip_id:
  assumes "s \<noteq> []" and "\<not> is_space (hd s)" and "\<not> is_space (last s)"
  shows "strip s = s"
proof -
  have at_front: "dropWhile is_space s = s"
    using assms by (cases s) simp_all
  have at_back: "dropWhile is_space (rev s) = rev s"
    using assms by (cases s rule: rev_cases) simp_all
  show ?thesis
    by (simp add: strip_def at_front at_back)
qed

lemma is_digit_01: "is_digit CHR ''0''" "is_digit CHR ''1''"
  by (simp_all add: is_digit_def)

text \<open>
  Claim C10. When the \<^verbatim>\<open>code\<close> parameter is \<^verbatim>\<open>01\<close> followed by four digits,
  \<^verbatim>\<open>handle_analysis\<close> answers 400 with the message for off-market fund codes, and the
  service is as before: no job was submitted. (Six digits are an accepted A-share code
  otherwise: the test for funds comes first.)
\<close>

theorem handle_analysis_rejects_fund_code:
  assumes "map_of q ''code'' = Some (c # others)"
    and "c = ''01'' @ ds" and "length ds = 4" and "list_all is_digit ds"
  shows "match_a_stock c
     \<and> handle_analysis from_str pool_error now q svc
       = Inr (\<lparr>http_status = 400,
               body = ErrorBody (err_fund_code_pre @ c @ err_fund_code_post)\<rparr>, svc)"
proof -
  have all: "list_all is_digit c"
    using assms(4) by (simp add: assms(2) is_digit_01)
  have "ds \<noteq> []"
    using assms(3) by auto
  hence "is_digit (last c)"
    using assms(4) by (simp add: assms(2) list_all_iff)
  hence stripped: "strip c = c"
    by (intro strip_id) (simp_all add: assms(2) digit_not_space is_digit_01)
  have lowered: "lower c = c"
    using all by (rule lower_digits)
  have a_stock: "match_a_stock c"
    using all assms(3) by (simp add: assms(2) match_a_stock_def digits_then_end_def at_end_def)
  have fund: "match_fund_code c"
    using assms(3,4) by (simp add: assms(2) match_fund_code_def digits_then_end_def at_end_def)
  have nonempty: "c \<noteq> []"
    by (simp add: assms(2))
  have code_list: "(case map_of q ''code'' of None \<Rightarrow> [] | Some l \<Rightarrow> l) = c # others"
    by (simp add: assms(1))
  have "handle_analysis from_str pool_error now q svc
       = Inr (\<lparr>http_status = 400,
               body = ErrorBody (err_fund_code_pre @ c @ err_fund_code_post)\<rparr>, svc)"
    unfolding handle_analysis_def Let_def code_list list.sel stripped lowered
    using a_stock fund nonempty by (simp only: list.distinct simp_thms if_True if_False)
  with a_stock show ?thesis
    by (rule conjI)
qed

theorem handle_analysis_rejects_fund_code_witness:
  "map_of [(''code'', [''012345''])] ''code'' = Some (''012345'' # [])
   \<and> ''012345'' = ''01'' @ ''2345'' \<and> length ''2345'' = 4 \<and> list_all is_digit ''2345''
   \<and> match_a_stock ''012345''
   \<and> handle_analysis (\<lambda>s. SIMPLE) None ''20260119_103000_000001''
        [(''code'', [''012345''])] \<lparr>tasks = sample_registry, submitted = []\<rparr>
     = Inr (\<lparr>http_status = 400,
             body = ErrorBody (err_fund_code_pre @ ''012345'' @ err_fund_code_post)\<rparr>,
            \<lparr>tasks = sample_registry, submitted = []\<rparr>)"
proof -
  have h: "map_of [(''code'', [''012345''])] ''code'' = Some (''012345'' # [])"
    "''012345'' = ''01'' @ ''2345''" "length ''2345'' = 4" "list_all is_digit ''2345''"
    by (simp_all add: is_digit_def)
  show ?thesis
    using h handle_analysis_rejects_fund_code
      [OF h, of "\<lambda>s. SIMPLE" None "''20260119_103000_000001''"
         "\<lparr>tasks = sample_registry, submitted = []\<rparr>"]
    by blast
qed

section \<open>The limit of the task list\<close>

lemma py_int_examples:
  "py_int ''-1'' = Some (- 1)"
  "py_int ''-5'' = Some (- 5)"
  "py_int '' 1_000 '' = Some 1000"
  "py_int ''+7'' = Some 7"
  "py_int ''abc'' = None"
  "py_int ''1.5'' = None"
  "py_int ''1__0'' = None"
  "py_int [] = None"
  by (simp_all add: py_int_def strip_def is_space_def is_digit_def digit_value_def)

text \<open>
  A limit that \<^verbatim>\<open>int\<close> refuses is replaced by 20, and then at most 20 records come
  back.
\<close>

lemma handle_tasks_non_numeric_limit:
  assumes "map_of q ''limit'' = Some (limit_str # others)" and "py_int limit_str = None"
  shows "handle_tasks q svc
           = Inr \<lparr>http_status = 200, body = TasksBody (list_tasks (tasks svc) 20)\<rparr>
         \<and> length (list_tasks (tasks svc) 20) \<le> 20"
  using assms by (simp add: handle_tasks_def list_tasks_def slice_upto_def)

text \<open>
  Claim C4 says that a negative limit is replaced by 20 as well. \<^verbatim>\<open>int("-1")\<close> raises
  nothing, so \<^verbatim>\<open>handle_tasks\<close> passes \<open>-1\<close> on, and \<^verbatim>\<open>tasks[:-1]\<close> is every record but
  the last: with 22 tasks in the map the answer holds 21 records.
\<close>

theorem handle_tasks_negative_limit:
  "\<exists>ts. handle_tasks [(''limit'', [''-1''])] svc
            = Inr \<lparr>http_status = 200, body = TasksBody ts\<rparr>
        \<and> length ts = length (tasks svc) - 1"
  by (simp add: handle_tasks_def py_int_examples list_tasks_def slice_upto_def sort_reverse_def)

section \<open>Jobs work on their own record\<close>

text \<open>A step of a job leaves the records of the other ids as they are.\<close>

lemma exec_other:
  assumes "exec (k, now, a) reg = Some reg'" and "k \<noteq> tid"
  shows "map_of reg' tid = map_of reg tid"
  using assms
  by (cases a) (auto simp: append_task_log_def update_conv' Let_def split: option.splits)


section \<open>Submission leaves the task map alone\<close>




section \<open>Running the steps of one job\<close>

lemma run_append:
  "run (xs @ ys) reg = (case run xs reg of None \<Rightarrow> None | Some r \<Rightarrow> run ys r)"
  by (induction xs arbitrary: reg) (simp_all split: option.splits)

lemma stamp_append:
  "stamp clock tid (xs @ ys) = stamp clock tid xs @ stamp (\<lambda>i. clock (length xs + i)) tid ys"
  by (induction xs arbitrary: clock) simp_all

lemma length_stamp: "length (stamp clock tid acts) = length acts"
  by (induction acts arbitrary: clock) simp_all

lemma append_task_log_present:
  assumes "map_of reg tid = Some t"
  shows "\<exists>t'. map_of (append_task_log now tid lvl m st pr reg) tid = Some t'
       \<and> status t' = status t \<and> end_time t' = end_time t \<and> result t' = result t
       \<and> error t' = error t
       \<and> \<lparr>ts = now, level = lvl, msg = m\<rparr> \<in> set (logs t')
       \<and> length (logs t') \<le> Suc (length (logs t))
       \<and> (length (logs t) < max_task_logs \<longrightarrow> logs t' = logs t @ [\<lparr>ts = now, level = lvl, msg = m\<rparr>])"
  using assms
  by (auto simp: append_task_log_def Let_def update_conv' slice_last_def max_task_logs_def
        split: option.splits)

text \<open>A step on a record that is there does not raise, and the record stays.\<close>

lemma exec_present:
  assumes "map_of reg tid = Some t"
  shows "\<exists>reg' t'. exec (tid, now, a) reg = Some reg' \<and> map_of reg' tid = Some t'"
proof (cases a)
  case (AppendLog lvl m st pr)
  with append_task_log_present[OF assms, of now lvl m st pr] show ?thesis by auto
qed (simp_all add: assms update_conv')

lemma run_present:
  assumes "map_of reg tid = Some t"
  shows "\<exists>reg' t'. run (stamp clock tid acts) reg = Some reg' \<and> map_of reg' tid = Some t'"
  using assms
proof (induction acts arbitrary: clock reg t)
  case Nil
  then show ?case by simp
next
  case (Cons a acts)
  from exec_present[OF Cons.prems, of "clock 0" a]
  obtain r t1 where r: "exec (tid, clock 0, a) reg = Some r" "map_of r tid = Some t1" by blast
  from Cons.IH[OF r(2), of "\<lambda>i. clock (Suc i)"] r(1) show ?case by simp
qed

text \<open>Without a creation, a log entry stays while there is room.\<close>

lemma exec_keeps_entry:
  assumes "map_of reg tid = Some t" and "\<not> is_create a" and "e \<in> set (logs t)"
    and "length (logs t) < max_task_logs"
  shows "\<exists>reg' t'. exec (tid, now, a) reg = Some reg' \<and> map_of reg' tid = Some t'
           \<and> e \<in> set (logs t') \<and> length (logs t') \<le> Suc (length (logs t))"
proof (cases a)
  case (AppendLog lvl m st pr)
  with append_task_log_present[OF assms(1), of now lvl m st pr] assms(3,4) show ?thesis by auto
qed (use assms in \<open>simp_all add: update_conv'\<close>)

lemma run_keeps_entry:
  assumes "map_of reg tid = Some t" and "\<not> list_ex is_create acts" and "e \<in> set (logs t)"
    and "length (logs t) + length acts \<le> max_task_logs"
  shows "\<exists>reg' t'. run (stamp clock tid acts) reg = Some reg' \<and> map_of reg' tid = Some t'
           \<and> e \<in> set (logs t')"
  using assms
proof (induction acts arbitrary: clock reg t)
  case Nil
  then show ?case by simp
next
  case (Cons a acts)
  have "\<not> is_create a" "length (logs t) < max_task_logs"
    using Cons.prems(2,4) by simp_all
  from exec_keeps_entry[OF Cons.prems(1) this(1) Cons.prems(3) this(2), of "clock 0"]
  obtain r t1 where r: "exec (tid, clock 0, a) reg = Some r" "map_of r tid = Some t1"
     "e \<in> set (logs t1)" "length (logs t1) \<le> Suc (length (logs t))" by blast
  have "\<not> list_ex is_create acts" "length (logs t1) + length acts \<le> max_task_logs"
    using Cons.prems(2,4) r(4) by simp_all
  from Cons.IH[OF r(2) this(1) r(3) this(2), of "\<lambda>i. clock (Suc i)"] r(1) show ?case by simp
qed

text \<open>The last two steps of a job that completes, and of one that fails.\<close>

lemma run_completed:
  assumes "map_of reg tid = Some t"
  shows "\<exists>reg' t'. run (stamp clock tid (acts @ [MarkCompleted d, AppendLog lvl m st pr])) reg = Some reg'
      \<and> map_of reg' tid = Some t' \<and> status t' = ''completed''
      \<and> end_time t' = Some (clock (length acts)) \<and> result t' = Some d"
proof -
  from run_present[OF assms, of clock acts]
  obtain r t1 where r: "run (stamp clock tid acts) reg = Some r" "map_of r tid = Some t1" by blast
  let ?t2 = "t1\<lparr>status := ''completed'', end_time := Some (clock (length acts)), result := Some d\<rparr>"
  have "map_of (AList.update tid ?t2 r) tid = Some ?t2" by (simp add: update_conv')
  from append_task_log_present[OF this, of "clock (Suc (length acts))" lvl m st pr] r
  show ?thesis
    by (auto simp: stamp_append run_append)
qed


section \<open>The analysis job, when the analysis returns a result\<close>

lemma notify_actions_plain:
  "\<not> list_ex is_create (notify_actions p content)"
  "length (notify_actions p content) \<le> 3"
  "count_list (notify_actions p content) (Call RenderReport) = 0"
  by (simp_all add: notify_actions_def split: sum.splits)

lemma analysis_success_actions_plain:
  "\<not> list_ex is_create (analysis_success_actions env p res rt sn)"
  "length (analysis_success_actions env p res rt sn) \<le> 11"
  "count_list (analysis_success_actions env p res rt sn) (Call RenderReport) = 1"
  using notify_actions_plain[of p "report_markdown_or_empty (rendered_result_data env p res rt)"]
  by (simp_all add: analysis_success_actions_def Let_def)

lemma analysis_success_actions_end:
  "\<exists>mid. analysis_success_actions env p res rt sn
     = mid @ [MarkCompleted (rendered_result_data env p res rt),
              AppendLog ''INFO'' msg_task_done (Some ''done'') (Some 100)]"
  by (simp add: analysis_success_actions_def Let_def)

lemma rendered_result_data_markdown:
  "map_of (rendered_result_data env p res rt) ''report_markdown''
     = Some (PStr (case (if rt = FULL then generate_dashboard_report p [res]
                         else generate_single_stock_report p res) of
                     Inl e \<Rightarrow> [] | Inr md \<Rightarrow> md))"
  by (simp add: rendered_result_data_def Let_def update_conv')

lemma analysis_reaches_analyze:
  assumes "import_pipeline env = None" and "new_pipeline env = Inr p"
    and "fetch_and_save_stock_data p c = Inr (success, err)"
    and "analyze_stock p c = Inr (Some res)"
  shows "run_analysis_actions env c rt sn =
     [CreateAnalysis c (report_type_value rt) sn,
      AppendLog ''INFO'' (msg_task_start @ c) (Some ''init'') (Some 3),
      AppendLog ''INFO'' msg_init_pipeline (Some ''init'') (Some 8),
      Call PipelineInit,
      AppendLog ''INFO'' msg_step1 (Some ''fetch_data'') (Some 18),
      Call FetchData,
      (if success
       then AppendLog ''INFO'' msg_data_ready (Some ''fetch_data'') (Some 35)
       else AppendLog ''WARNING''
              (msg_fetch_failed_pre @ str_of_optional err @ msg_fetch_failed_post)
              (Some ''fetch_data'') (Some 35)),
      AppendLog ''INFO'' msg_step2 (Some ''analyze'') (Some 55),
      Call Analyze] @ analysis_success_actions env p res rt sn"
  using assms by (simp add: run_analysis_actions_def analysis_try_actions_def)


lemma analysis_head_run:
  "\<exists>r t. run (stamp clock tid
       [CreateAnalysis c rtv sn,
        AppendLog ''INFO'' m1 (Some ''init'') (Some 3),
        AppendLog ''INFO'' m2 (Some ''init'') (Some 8),
        Call PipelineInit,
        AppendLog ''INFO'' m3 (Some ''fetch_data'') (Some 18),
        Call FetchData,
        AppendLog lvl m (Some ''fetch_data'') (Some 35)]) reg = Some r
     \<and> map_of r tid = Some t
     \<and> logs t = [\<lparr>ts = clock 1, level = ''INFO'', msg = m1\<rparr>,
                 \<lparr>ts = clock 2, level = ''INFO'', msg = m2\<rparr>,
                 \<lparr>ts = clock 4, level = ''INFO'', msg = m3\<rparr>,
                 \<lparr>ts = clock 6, level = lvl, msg = m\<rparr>]
     \<and> stage t = ''fetch_data''"
  by (simp add: append_task_log_def update_conv' max_task_logs_def Let_def eval_nat_numeral)

lemma analysis_completes:
  assumes "import_pipeline env = None" and "new_pipeline env = Inr p"
    and "fetch_and_save_stock_data p c = Inr (success, err)"
    and "analyze_stock p c = Inr (Some res)"
    and "lvl = (if success then ''INFO'' else ''WARNING'')"
    and "m = (if success then msg_data_ready
              else msg_fetch_failed_pre @ str_of_optional err @ msg_fetch_failed_post)"
  shows "\<exists>reg' t. run_analysis env clock c tid rt sn reg = Some reg'
     \<and> get_task_status reg' tid = Some t
     \<and> status t = ''completed''
     \<and> result t = Some (rendered_result_data env p res rt)
     \<and> end_time t \<noteq> None
     \<and> \<lparr>ts = clock 6, level = lvl, msg = m\<rparr> \<in> set (logs t)"
proof -
  define head where "head = [CreateAnalysis c (report_type_value rt) sn,
      AppendLog ''INFO'' (msg_task_start @ c) (Some ''init'') (Some 3),
      AppendLog ''INFO'' msg_init_pipeline (Some ''init'') (Some 8),
      Call PipelineInit,
      AppendLog ''INFO'' msg_step1 (Some ''fetch_data'') (Some 18),
      Call FetchData,
      AppendLog lvl m (Some ''fetch_data'') (Some 35)]"
  let ?e = "\<lparr>ts = clock 6, level = lvl, msg = m\<rparr>"
  let ?d = "rendered_result_data env p res rt"
  let ?clock = "\<lambda>i. clock (length head + i)"
  obtain mid where mid: "analysis_success_actions env p res rt sn
     = mid @ [MarkCompleted ?d, AppendLog ''INFO'' msg_task_done (Some ''done'') (Some 100)]"
    using analysis_success_actions_end by blast
  define mid' where
    "mid' = [AppendLog ''INFO'' msg_step2 (Some ''analyze'') (Some 55), Call Analyze] @ mid"
  define rest where
    "rest = mid' @ [MarkCompleted ?d, AppendLog ''INFO'' msg_task_done (Some ''done'') (Some 100)]"
  have acts: "run_analysis_actions env c rt sn = head @ rest"
    using analysis_reaches_analyze[OF assms(1-4), of rt sn] assms(5,6) mid
    by (simp add: head_def rest_def mid'_def)
  have plain: "\<not> list_ex is_create rest" "length rest \<le> 13"
    using analysis_success_actions_plain(1,2)[of env p res rt sn] mid
    by (simp_all add: rest_def mid'_def)
  obtain r7 t7 where r7: "run (stamp clock tid head) reg = Some r7" "map_of r7 tid = Some t7"
    and logs7: "logs t7 = [\<lparr>ts = clock 1, level = ''INFO'', msg = msg_task_start @ c\<rparr>,
                 \<lparr>ts = clock 2, level = ''INFO'', msg = msg_init_pipeline\<rparr>,
                 \<lparr>ts = clock 4, level = ''INFO'', msg = msg_step1\<rparr>, ?e]"
    unfolding head_def
    using analysis_head_run[of clock tid c "report_type_value rt" sn "msg_task_start @ c"
        msg_init_pipeline msg_step1 lvl m reg] by blast
  have room: "?e \<in> set (logs t7)" "length (logs t7) + length rest \<le> max_task_logs"
    using logs7 plain(2) by (simp_all add: max_task_logs_def)
  from run_keeps_entry[OF r7(2) plain(1) room, of ?clock]
  obtain reg' t' where kept: "run (stamp ?clock tid rest) r7 = Some reg'"
      "map_of reg' tid = Some t'" "?e \<in> set (logs t')" by blast
  from run_completed[OF r7(2), of ?clock mid' ?d "''INFO''" msg_task_done "Some ''done''" "Some 100"]
    kept(1,2)
  have fin: "status t' = ''completed''" "result t' = Some ?d" "end_time t' \<noteq> None"
    by (auto simp: rest_def)
  have "run_analysis env clock c tid rt sn reg = Some reg'"
    by (simp only: run_analysis_def acts stamp_append run_append r7(1) kept(1) option.case)
  with kept(2,3) fin show ?thesis
    by (auto simp: get_task_status_def)
qed

section \<open>A failed data fetch does not fail the job\<close>

text \<open>
  Claim C5. In a run of \<^verbatim>\<open>_run_analysis\<close> where the pipeline is built, the data fetch
  returns a failure (\<^verbatim>\<open>success\<close> false) and the analysis returns a result, the job runs to
  its end, the record has the status \<^verbatim>\<open>completed\<close>, and its logs hold the \<^verbatim>\<open>WARNING\<close>
  entry of the failed fetch. That entry is written by the seventh action of the job, a
  call of \<^verbatim>\<open>_append_task_log\<close> with the stage \<^verbatim>\<open>fetch_data\<close>.
\<close>

theorem fetch_failure_still_completes:
  assumes "import_pipeline env = None" and "new_pipeline env = Inr p"
    and "fetch_and_save_stock_data p c = Inr (False, err)"
    and "analyze_stock p c = Inr (Some res)"
  shows "\<exists>reg' t. run_analysis env clock c tid rt sn reg = Some reg'
     \<and> get_task_status reg' tid = Some t
     \<and> status t = ''completed''
     \<and> \<lparr>ts = clock 6, level = ''WARNING'',
         msg = msg_fetch_failed_pre @ str_of_optional err @ msg_fetch_failed_post\<rparr>
          \<in> set (logs t)
     \<and> run_analysis_actions env c rt sn ! 6
         = AppendLog ''WARNING''
             (msg_fetch_failed_pre @ str_of_optional err @ msg_fetch_failed_post)
             (Some ''fetch_data'') (Some 35)"
proof -
  have "run_analysis_actions env c rt sn ! 6
         = AppendLog ''WARNING''
             (msg_fetch_failed_pre @ str_of_optional err @ msg_fetch_failed_post)
             (Some ''fetch_data'') (Some 35)"
    by (simp add: analysis_reaches_analyze[OF assms] eval_nat_numeral)
  with analysis_completes[OF assms, of "''WARNING''"
      "msg_fetch_failed_pre @ str_of_optional err @ msg_fetch_failed_post" clock tid rt sn reg]
  show ?thesis by auto
qed

theorem fetch_failure_still_completes_witness:
  "import_pipeline sample_env = None
   \<and> new_pipeline sample_env = Inr sample_pipeline
   \<and> fetch_and_save_stock_data sample_pipeline ''600519'' = Inr (False, Some ''timeout'')
   \<and> analyze_stock sample_pipeline ''600519'' = Inr (Some sample_result)
   \<and> (\<exists>reg' t.
        run_analysis sample_env sample_clock ''600519'' ''600519_20260119_103200_000001''
          SIMPLE False sample_registry = Some reg'
      \<and> get_task_status reg' ''600519_20260119_103200_000001'' = Some t
      \<and> status t = ''completed''
      \<and> \<lparr>ts = sample_clock 6, level = ''WARNING'',
          msg = msg_fetch_failed_pre @ ''timeout'' @ msg_fetch_failed_post\<rparr> \<in> set (logs t))"
proof -
  have h: "import_pipeline sample_env = None"
    "new_pipeline sample_env = Inr sample_pipeline"
    "fetch_and_save_stock_data sample_pipeline ''600519'' = Inr (False, Some ''timeout'')"
    "analyze_stock sample_pipeline ''600519'' = Inr (Some sample_result)"
    by (simp_all add: sample_env_def sample_pipeline_def)
  from fetch_failure_still_completes[OF h, of sample_clock "''600519_20260119_103200_000001''"
      SIMPLE False sample_registry]
  have "\<exists>reg' t.
        run_analysis sample_env sample_clock ''600519'' ''600519_20260119_103200_000001''
          SIMPLE False sample_registry = Some reg'
      \<and> get_task_status reg' ''600519_20260119_103200_000001'' = Some t
      \<and> status t = ''completed''
      \<and> \<lparr>ts = sample_clock 6, level = ''WARNING'',
          msg = msg_fetch_failed_pre @ ''timeout'' @ msg_fetch_failed_post\<rparr> \<in> set (logs t)"
    by auto
  with h show ?thesis by (intro conjI)
qed

section \<open>A renderer that raises does not fail the job\<close>

text \<open>
  Claim C7. In a run of \<^verbatim>\<open>_run_analysis\<close> where the analysis returns a result and the
  renderer of the report raises (\<^verbatim>\<open>generate_dashboard_report\<close> for a full report,
  \<^verbatim>\<open>generate_single_stock_report\<close> otherwise), the job runs to its end with the status
  \<^verbatim>\<open>completed\<close>, the stored result holds the empty string under \<^verbatim>\<open>report_markdown\<close>, and
  the renderer is called once.
\<close>

theorem render_failure_still_completes:
  assumes "import_pipeline env = None" and "new_pipeline env = Inr p"
    and "fetch_and_save_stock_data p c = Inr (success, err)"
    and "analyze_stock p c = Inr (Some res)"
    and "(if rt = FULL then generate_dashboard_report p [res]
          else generate_single_stock_report p res) = Inl e"
  shows "\<exists>reg' t d. run_analysis env clock c tid rt sn reg = Some reg'
     \<and> get_task_status reg' tid = Some t
     \<and> status t = ''completed''
     \<and> result t = Some d
     \<and> map_of d ''report_markdown'' = Some (PStr [])
     \<and> count_list (run_analysis_actions env c rt sn) (Call RenderReport) = 1"
proof -
  have "map_of (rendered_result_data env p res rt) ''report_markdown'' = Some (PStr [])"
    by (simp only: rendered_result_data_markdown assms(5) sum.case)
  moreover have "count_list (run_analysis_actions env c rt sn) (Call RenderReport) = 1"
    using analysis_success_actions_plain(3)[of env p res rt sn]
    by (simp add: analysis_reaches_analyze[OF assms(1-4)])
  moreover note analysis_completes[OF assms(1-4) refl refl, of clock tid rt sn reg]
  ultimately show ?thesis by blast
qed

theorem render_failure_still_completes_witness:
  "import_pipeline sample_env = None
   \<and> new_pipeline sample_env = Inr sample_pipeline
   \<and> fetch_and_save_stock_data sample_pipeline ''600519'' = Inr (False, Some ''timeout'')
   \<and> analyze_stock sample_pipeline ''600519'' = Inr (Some sample_result)
   \<and> (if SIMPLE = FULL then generate_dashboard_report sample_pipeline [sample_result]
       else generate_single_stock_report sample_pipeline sample_result) = Inl ''template error''
   \<and> (\<exists>reg' t d.
        run_analysis sample_env sample_clock ''600519'' ''600519_20260119_103200_000001''
          SIMPLE False sample_registry = Some reg'
      \<and> get_task_status reg' ''600519_20260119_103200_000001'' = Some t
      \<and> status t = ''completed''
      \<and> result t = Some d
      \<and> map_of d ''report_markdown'' = Some (PStr []))"
proof -
  have h: "import_pipeline sample_env = None"
    "new_pipeline sample_env = Inr sample_pipeline"
    "fetch_and_save_stock_data sample_pipeline ''600519'' = Inr (False, Some ''timeout'')"
    "analyze_stock sample_pipeline ''600519'' = Inr (Some sample_result)"
    "(if SIMPLE = FULL then generate_dashboard_report sample_pipeline [sample_result]
       else generate_single_stock_report sample_pipeline sample_result) = Inl ''template error''"
    by (simp_all add: sample_env_def sample_pipeline_def)
  from render_failure_still_completes[OF h, of sample_clock "''600519_20260119_103200_000001''"
      False sample_registry]
  have "\<exists>reg' t d.
        run_analysis sample_env sample_clock ''600519'' ''600519_20260119_103200_000001''
          SIMPLE False sample_registry = Some reg'
      \<and> get_task_status reg' ''600519_20260119_103200_000001'' = Some t
      \<and> status t = ''completed''
      \<and> result t = Some d
      \<and> map_of d ''report_markdown'' = Some (PStr [])"
    by blast
  with h show ?thesis by (intro conjI)
qed

section \<open>A market review without output fails the job\<close>

text \<open>\<^verbatim>\<open>run_market_review\<close> returns a text that is not empty, or \<^verbatim>\<open>None\<close>.\<close>

lemma run_market_review_not_empty:
  "run_market_review w ntf analyzer search_service \<noteq> Some []"
  by (simp add: run_market_review_def Let_def split: sum.splits option.splits)

lemma run_market_review_no_daily_review:
  assumes "new_market_analyzer w search_service analyzer = Inr ma"
    and "run_daily_review ma = Inr None \<or> run_daily_review ma = Inr (Some [])"
  shows "run_market_review w ntf analyzer search_service = None"
  using assms by (auto simp: run_market_review_def)




section \<open>The statuses a reader sees along a schedule\<close>

lemma exec_status:
  assumes "exec (k, now, a) reg = Some reg'"
  shows "status_at tid reg' =
     (if k = tid then (case status_written a of None \<Rightarrow> status_at tid reg | Some s \<Rightarrow> Some s)
      else status_at tid reg)"
proof (cases "k = tid")
  case False
  with exec_other[OF assms, of tid] show ?thesis
    by (simp add: status_at_def get_task_status_def)
next
  case True
  with assms show ?thesis
    by (cases a)
       (auto simp: status_at_def get_task_status_def append_task_log_def update_conv' Let_def
          split: option.splits)
qed

lemma states_Cons: "\<exists>rest. states sched reg = reg # rest"
  by (cases sched) simp_all

lemma remdups_adj_Cons_hd:
  "xs \<noteq> [] \<Longrightarrow> remdups_adj (a # xs) = (if a = hd xs then remdups_adj xs else a # remdups_adj xs)"
  by (cases xs) simp_all

lemma remdups_adj_starts: "prefix [a] (remdups_adj (a # xs))"
  by (simp add: remdups_adj_Cons split: list.splits)

lemma statuses_written_Cons:
  "statuses_written tid ((k, now, a) # sched) =
     (if k = tid then (case status_written a of None \<Rightarrow> statuses_written tid sched
                       | Some s \<Rightarrow> s # statuses_written tid sched)
      else statuses_written tid sched)"
  by (simp add: statuses_written_def actions_of_def List.map_filter_simps split: option.splits)

lemma statuses_written_Nil: "statuses_written tid [] = []"
  by (simp add: statuses_written_def actions_of_def List.map_filter_simps)

text \<open>
  What a reader sees of an id along a schedule is what the map showed at first, followed
  by the statuses written under the id; a run that a \<^verbatim>\<open>KeyError\<close> cuts short shows a
  prefix of that.
\<close>

lemma observed_prefix:
  "prefix (observed_statuses tid sched reg)
     (remdups_adj (status_at tid reg # map Some (statuses_written tid sched)))"
proof (induction sched arbitrary: reg)
  case Nil
  show ?case by (simp add: observed_statuses_def statuses_written_Nil)
next
  case (Cons s sched)
  obtain k now a where s: "s = (k, now, a)" by (cases s)
  show ?case
  proof (cases "exec s reg")
    case None
    have "observed_statuses tid (s # sched) reg = [status_at tid reg]"
      using None by (simp add: observed_statuses_def)
    then show ?thesis
      by (simp only: remdups_adj_starts)
  next
    case (Some r)
    obtain rest where rest: "states sched r = r # rest"
      using states_Cons by blast
    let ?X = "map (status_at tid) (states sched r)"
    let ?ws = "statuses_written tid sched"
    have IH: "prefix (remdups_adj ?X) (remdups_adj (status_at tid r # map Some ?ws))"
      using Cons.IH[of r] by (simp add: observed_statuses_def)
    have obs: "observed_statuses tid (s # sched) reg = remdups_adj (status_at tid reg # ?X)"
      using Some by (simp add: observed_statuses_def)
    have X: "?X \<noteq> []" "hd ?X = status_at tid r"
      by (simp_all add: rest)
    show ?thesis
    proof (cases "k = tid \<and> status_written a \<noteq> None")
      case False
      hence same: "status_at tid r = status_at tid reg"
          "statuses_written tid (s # sched) = ?ws"
        using exec_status[of k now a reg r tid] Some s
        by (auto simp: statuses_written_Cons split: option.splits)
      have "remdups_adj (status_at tid reg # ?X) = remdups_adj ?X"
        using X same(1) by (simp add: remdups_adj_Cons_hd)
      with IH same obs show ?thesis by simp
    next
      case True
      then obtain w where w: "status_written a = Some w" "k = tid" by auto
      hence new: "status_at tid r = Some w" "statuses_written tid (s # sched) = w # ?ws"
        using exec_status[of k now a reg r tid] Some s
        by (simp_all add: statuses_written_Cons)
      let ?Y = "Some w # map Some ?ws"
      have Y: "?Y \<noteq> []" "hd ?Y = Some w" by simp_all
      have "prefix (remdups_adj (status_at tid reg # ?X)) (remdups_adj (status_at tid reg # ?Y))"
        using IH X Y new(1)
        by (simp only: remdups_adj_Cons_hd[OF X(1)] remdups_adj_Cons_hd[OF Y(1)] X(2) Y(2))
           (simp add: new(1))
      with obs new(2) show ?thesis by simp
    qed
  qed
qed

lemma observed_full:
  assumes "run sched reg \<noteq> None"
  shows "observed_statuses tid sched reg
     = remdups_adj (status_at tid reg # map Some (statuses_written tid sched))"
  using assms
proof (induction sched arbitrary: reg)
  case Nil
  show ?case by (simp add: observed_statuses_def statuses_written_Nil)
next
  case (Cons s sched)
  obtain k now a where s: "s = (k, now, a)" by (cases s)
  from Cons.prems obtain r where r: "exec s reg = Some r" "run sched r \<noteq> None"
    by (auto split: option.splits)
  obtain rest where rest: "states sched r = r # rest"
    using states_Cons by blast
  let ?X = "map (status_at tid) (states sched r)"
  let ?ws = "statuses_written tid sched"
  have IH: "remdups_adj ?X = remdups_adj (status_at tid r # map Some ?ws)"
    using Cons.IH[OF r(2)] by (simp add: observed_statuses_def)
  have obs: "observed_statuses tid (s # sched) reg = remdups_adj (status_at tid reg # ?X)"
    using r(1) by (simp add: observed_statuses_def)
  have X: "?X \<noteq> []" "hd ?X = status_at tid r"
    by (simp_all add: rest)
  show ?case
  proof (cases "k = tid \<and> status_written a \<noteq> None")
    case False
    hence same: "status_at tid r = status_at tid reg"
        "statuses_written tid (s # sched) = ?ws"
      using exec_status[of k now a reg r tid] r(1) s
      by (auto simp: statuses_written_Cons split: option.splits)
    have "remdups_adj (status_at tid reg # ?X) = remdups_adj ?X"
      using X same(1) by (simp add: remdups_adj_Cons_hd)
    with IH same obs show ?thesis by simp
  next
    case True
    then obtain w where w: "status_written a = Some w" "k = tid" by auto
    hence new: "status_at tid r = Some w" "statuses_written tid (s # sched) = w # ?ws"
      using exec_status[of k now a reg r tid] r(1) s
      by (simp_all add: statuses_written_Cons)
    let ?Y = "Some w # map Some ?ws"
    have Y: "?Y \<noteq> []" "hd ?Y = Some w" by simp_all
    have "remdups_adj (status_at tid reg # ?X) = remdups_adj (status_at tid reg # ?Y)"
      using IH X Y new(1)
      by (simp only: remdups_adj_Cons_hd[OF X(1)] remdups_adj_Cons_hd[OF Y(1)] X(2) Y(2))
    with obs new(2) show ?thesis by simp
  qed
qed

section \<open>The statuses a job writes\<close>

lemma map_filter_append:
  "List.map_filter f (xs @ ys) = List.map_filter f xs @ List.map_filter f ys"
  by (simp add: List.map_filter_def)

lemma map_filter_prefix:
  "prefix xs ys \<Longrightarrow> prefix (List.map_filter f xs) (List.map_filter f ys)"
  by (auto simp: prefix_def map_filter_append)

lemma actions_of_stamp: "actions_of tid (stamp clock tid acts) = acts"
  by (induction acts arbitrary: clock) (simp_all add: actions_of_def)

lemma statuses_written_stamp:
  "statuses_written tid (stamp clock tid acts) = List.map_filter status_written acts"
  by (simp add: statuses_written_def actions_of_stamp)

lemma notify_actions_writes:
  "List.map_filter status_written (notify_actions p content) = []"
  by (simp add: notify_actions_def List.map_filter_simps split: sum.splits)

lemma analysis_success_actions_writes:
  "List.map_filter status_written (analysis_success_actions env p res rt sn) = [''completed'']"
  by (simp add: analysis_success_actions_def Let_def List.map_filter_simps map_filter_append
        notify_actions_writes)

lemma analysis_try_actions_writes:
  "case analysis_try_actions env c rt sn of
     (acts, None) \<Rightarrow> List.map_filter status_written acts = [''completed'']
                      \<or> List.map_filter status_written acts = [''failed'']
   | (acts, Some e) \<Rightarrow> List.map_filter status_written acts = []"
  by (simp add: analysis_try_actions_def Let_def List.map_filter_simps map_filter_append
        analysis_success_actions_writes split: sum.splits option.splits prod.splits)

lemma run_analysis_actions_writes:
  "List.map_filter status_written (run_analysis_actions env c rt sn) = [''running'', ''completed'']
   \<or> List.map_filter status_written (run_analysis_actions env c rt sn) = [''running'', ''failed'']"
  using analysis_try_actions_writes[of env c rt sn]
  by (auto simp: run_analysis_actions_def List.map_filter_simps map_filter_append
        split: prod.splits option.splits)

lemma init_search_service_writes:
  "List.map_filter status_written (snd (init_search_service env cfg)) = []"
  by (simp add: init_search_service_def List.map_filter_simps split: sum.splits option.splits)

lemma init_analyzer_writes:
  "List.map_filter status_written (snd (init_analyzer env cfg)) = []"
  by (simp add: init_analyzer_def List.map_filter_simps split: sum.splits option.splits)

lemma market_review_try_actions_writes:
  "case market_review_try_actions env of
     (acts, None) \<Rightarrow> List.map_filter status_written acts = [''completed'']
                      \<or> List.map_filter status_written acts = [''failed'']
   | (acts, Some e) \<Rightarrow> List.map_filter status_written acts = []"
  by (simp add: market_review_try_actions_def Let_def List.map_filter_simps map_filter_append
        init_search_service_writes init_analyzer_writes case_prod_beta
        split: sum.splits option.splits)

lemma run_market_review_actions_writes:
  "List.map_filter status_written (run_market_review_actions env) = [''running'', ''completed'']
   \<or> List.map_filter status_written (run_market_review_actions env) = [''running'', ''failed'']"
  using market_review_try_actions_writes[of env]
  by (auto simp: run_market_review_actions_def List.map_filter_simps map_filter_append
        split: prod.splits option.splits)

section \<open>The life of a status\<close>

lemma job_starts_with_create:
  "\<exists>acts. run_analysis_actions env c rt sn = CreateAnalysis c (report_type_value rt) sn # acts"
  "\<exists>acts. run_market_review_actions renv = CreateMarketReview # acts"
  by (simp_all add: run_analysis_actions_def run_market_review_actions_def)

lemma run_created:
  assumes "is_create a"
  shows "run (stamp clock tid (a # acts)) reg \<noteq> None"
proof -
  from assms obtain r t where r: "exec (tid, clock 0, a) reg = Some r" "map_of r tid = Some t"
    by (cases a) (simp_all add: update_conv')
  from run_present[OF r(2), of "\<lambda>i. clock (Suc i)" acts] r(1) show ?thesis
    by auto
qed

lemma prefix_two:
  "prefix ws [a, b] \<Longrightarrow> ws = [] \<or> ws = [a] \<or> ws = [a, b]"
  by (auto simp: prefix_Cons)

lemma sample_job_writes:
  "List.map_filter status_written (run_analysis_actions sample_env ''600519'' SIMPLE False)
     = [''running'', ''completed'']"
proof -
  have h: "import_pipeline sample_env = None"
    "new_pipeline sample_env = Inr sample_pipeline"
    "fetch_and_save_stock_data sample_pipeline ''600519'' = Inr (False, Some ''timeout'')"
    "analyze_stock sample_pipeline ''600519'' = Inr (Some sample_result)"
    by (simp_all add: sample_env_def sample_pipeline_def)
  show ?thesis
    by (simp add: analysis_reaches_analyze[OF h] List.map_filter_simps map_filter_append
          analysis_success_actions_writes)
qed

lemma sample_id_new:
  "status_at ''600519_20260119_103200_000001'' sample_registry = None"
  by (simp add: status_at_def get_task_status_def sample_registry_def)

text \<open>
  Claim C1 says that the statuses of a record are a prefix of \<^verbatim>\<open>pending\<close>, \<^verbatim>\<open>running\<close>,
  \<^verbatim>\<open>completed\<close> or of \<^verbatim>\<open>pending\<close>, \<^verbatim>\<open>running\<close>, \<^verbatim>\<open>failed\<close>, and that nothing else is seen
  through \<^verbatim>\<open>get_task_status\<close>. No statement of the service writes \<^verbatim>\<open>pending\<close>: a record
  is created with the status \<^verbatim>\<open>running\<close>. Here a reader of the id of an analysis job
  sees no record, then \<^verbatim>\<open>running\<close>, then \<^verbatim>\<open>completed\<close>, and the statuses \<^verbatim>\<open>running\<close>,
  \<^verbatim>\<open>completed\<close> are a prefix of neither path. When a second job runs under the same id
  (the id is not checked to be new), its creation replaces the record, and the reader
  sees \<^verbatim>\<open>running\<close> again after \<^verbatim>\<open>completed\<close>.
\<close>

theorem status_path_counterexample:
  "observed_statuses ''600519_20260119_103200_000001''
      (stamp sample_clock ''600519_20260119_103200_000001''
         (run_analysis_actions sample_env ''600519'' SIMPLE False)) sample_registry
     = [None, Some ''running'', Some ''completed'']
   \<and> \<not> prefix [''running'', ''completed''] [''pending'', ''running'', ''completed'']
   \<and> \<not> prefix [''running'', ''completed''] [''pending'', ''running'', ''failed'']
   \<and> observed_statuses ''600519_20260119_103200_000001''
      (stamp sample_clock ''600519_20260119_103200_000001''
         (run_analysis_actions sample_env ''600519'' SIMPLE False
          @ run_analysis_actions sample_env ''600519'' SIMPLE False)) sample_registry
     = [None, Some ''running'', Some ''completed'', Some ''running'', Some ''completed'']"
proof -
  let ?tid = "''600519_20260119_103200_000001''"
  let ?job = "run_analysis_actions sample_env ''600519'' SIMPLE False"
  obtain acts where acts: "?job = CreateAnalysis ''600519'' (report_type_value SIMPLE) False # acts"
    using job_starts_with_create(1) by blast
  have "run (stamp sample_clock ?tid ?job) sample_registry \<noteq> None"
    unfolding acts by (rule run_created) simp
  from observed_full[OF this, of ?tid]
  have one: "observed_statuses ?tid (stamp sample_clock ?tid ?job) sample_registry
     = [None, Some ''running'', Some ''completed'']"
    by (simp add: sample_id_new statuses_written_stamp sample_job_writes)
  have "run (stamp sample_clock ?tid (?job @ ?job)) sample_registry \<noteq> None"
    unfolding acts append_Cons by (rule run_created) simp
  from observed_full[OF this, of ?tid]
  have two: "observed_statuses ?tid (stamp sample_clock ?tid (?job @ ?job)) sample_registry
     = [None, Some ''running'', Some ''completed'', Some ''running'', Some ''completed'']"
    by (simp add: sample_id_new statuses_written_stamp map_filter_append sample_job_writes)
  have no: "\<not> prefix [''running'', ''completed''] [''pending'', ''running'', ''completed'']"
    "\<not> prefix [''running'', ''completed''] [''pending'', ''running'', ''failed'']"
    by simp_all
  from one no two show ?thesis by (intro conjI)
qed

text \<open>
  Claim C1, amended. Take an id that has no record yet, and a schedule of steps of any
  jobs in which the steps under this id are the first actions, in order, of one analysis
  job or of one market review job (no other job uses the id). Then what
  \<^verbatim>\<open>get_task_status\<close> shows for the id along the schedule is a prefix of: no record,
  \<^verbatim>\<open>running\<close>, \<^verbatim>\<open>completed\<close>; or a prefix of: no record, \<^verbatim>\<open>running\<close>, \<^verbatim>\<open>failed\<close>. The status
  \<^verbatim>\<open>pending\<close> never occurs, and a status \<^verbatim>\<open>completed\<close> or \<^verbatim>\<open>failed\<close> is never left. A job
  that runs all its actions goes through the whole of one of the two paths.
\<close>

theorem status_lifecycle:
  assumes "get_task_status reg tid = None"
    and "job = run_analysis_actions env c rt sn \<or> job = run_market_review_actions renv"
    and "prefix (actions_of tid sched) job"
  shows "(prefix (observed_statuses tid sched reg) [None, Some ''running'', Some ''completed'']
          \<or> prefix (observed_statuses tid sched reg) [None, Some ''running'', Some ''failed''])
       \<and> (observed_statuses tid (stamp clock tid job) reg
              = [None, Some ''running'', Some ''completed'']
          \<or> observed_statuses tid (stamp clock tid job) reg
              = [None, Some ''running'', Some ''failed''])"
proof -
  have absent: "status_at tid reg = None"
    using assms(1) by (simp add: status_at_def)
  have job: "List.map_filter status_written job = [''running'', ''completed'']
           \<or> List.map_filter status_written job = [''running'', ''failed'']"
    using assms(2) run_analysis_actions_writes[of env c rt sn]
      run_market_review_actions_writes[of renv] by auto
  have pre: "prefix (statuses_written tid sched) (List.map_filter status_written job)"
    unfolding statuses_written_def using assms(3) by (rule map_filter_prefix)
  have seen: "prefix (observed_statuses tid sched reg)
                (remdups_adj (None # map Some (statuses_written tid sched)))"
    using observed_prefix[of tid sched reg] by (simp only: absent)
  have part: "prefix (observed_statuses tid sched reg) [None, Some ''running'', Some ''completed'']
          \<or> prefix (observed_statuses tid sched reg) [None, Some ''running'', Some ''failed'']"
  proof -
    from job have "statuses_written tid sched = []
        \<or> statuses_written tid sched = [''running'']
        \<or> statuses_written tid sched = [''running'', ''completed'']
        \<or> statuses_written tid sched = [''running'', ''failed'']"
    proof
      assume "List.map_filter status_written job = [''running'', ''completed'']"
      with pre have "prefix (statuses_written tid sched) [''running'', ''completed'']"
        by simp
      from prefix_two[OF this] show ?thesis by blast
    next
      assume "List.map_filter status_written job = [''running'', ''failed'']"
      with pre have "prefix (statuses_written tid sched) [''running'', ''failed'']"
        by simp
      from prefix_two[OF this] show ?thesis by blast
    qed
    then have "prefix (remdups_adj (None # map Some (statuses_written tid sched)))
                 [None, Some ''running'', Some ''completed'']
             \<or> prefix (remdups_adj (None # map Some (statuses_written tid sched)))
                 [None, Some ''running'', Some ''failed'']"
      by (elim disjE) simp_all
    with seen show ?thesis
      using prefix_order.trans by blast
  qed
  have "\<exists>a acts. job = a # acts \<and> is_create a"
    using assms(2) job_starts_with_create(1)[of env c rt sn] job_starts_with_create(2)[of renv]
    by auto
  then have "run (stamp clock tid job) reg \<noteq> None"
    using run_created by blast
  from observed_full[OF this, of tid]
  have "observed_statuses tid (stamp clock tid job) reg
          = remdups_adj (None # map Some (List.map_filter status_written job))"
    by (simp only: absent statuses_written_stamp)
  with job have whole: "observed_statuses tid (stamp clock tid job) reg
              = [None, Some ''running'', Some ''completed'']
          \<or> observed_statuses tid (stamp clock tid job) reg
              = [None, Some ''running'', Some ''failed'']"
    by (elim disjE) simp_all
  from part whole show ?thesis by (rule conjI)
qed

theorem status_lifecycle_witness:
  "get_task_status sample_registry ''600519_20260119_103200_000001'' = None
   \<and> prefix (actions_of ''600519_20260119_103200_000001'' sample_schedule)
        (run_analysis_actions sample_env ''600519'' SIMPLE False)
   \<and> observed_statuses ''600519_20260119_103200_000001'' sample_schedule sample_registry
       = [None, Some ''running'']
   \<and> (prefix (observed_statuses ''600519_20260119_103200_000001'' sample_schedule sample_registry)
          [None, Some ''running'', Some ''completed'']
      \<or> prefix (observed_statuses ''600519_20260119_103200_000001'' sample_schedule sample_registry)
          [None, Some ''running'', Some ''failed''])"
proof -
  let ?tid = "''600519_20260119_103200_000001''"
  let ?job = "run_analysis_actions sample_env ''600519'' SIMPLE False"
  have h1: "get_task_status sample_registry ?tid = None"
    by (simp add: get_task_status_def sample_registry_def)
  have h2: "?job = run_analysis_actions sample_env ''600519'' SIMPLE False
            \<or> ?job = run_market_review_actions sample_review_env"
    by simp
  have h3: "prefix (actions_of ?tid sample_schedule) ?job"
    by (simp add: actions_of_def sample_schedule_def run_analysis_actions_def)
  have v: "observed_statuses ?tid sample_schedule sample_registry = [None, Some ''running'']"
    by (simp add: observed_statuses_def sample_schedule_def sample_registry_def status_at_def
          get_task_status_def append_task_log_def sample_task_def update_conv' Let_def
          max_task_logs_def)
  have p: "prefix (observed_statuses ?tid sample_schedule sample_registry)
          [None, Some ''running'', Some ''completed'']
      \<or> prefix (observed_statuses ?tid sample_schedule sample_registry)
          [None, Some ''running'', Some ''failed'']"
    using status_lifecycle[OF h1 h2 h3, of sample_clock] by (rule conjunct1)
  from h1 h3 v p show ?thesis
    by (intro conjI)
qed

end
